theory Spec2Isabelle
  imports Main "HOL-Library.AList" "HOL-Library.Char_ord" "HOL-Library.List_Lexorder"
begin

section \<open>Python values shared by the watchers\<close>

text \<open>
  Exceptions are values. The handlers of the watchers distinguish two kinds only:
  \<^verbatim>\<open>except Exception\<close> catches every ordinary exception and lets
  \<^verbatim>\<open>KeyboardInterrupt\<close> pass, which \<^verbatim>\<open>BaseWatcher.run\<close> handles on its own.
  An ordinary exception carries its \<^verbatim>\<open>str(exc)\<close>.
\<close>

datatype exn = KeyboardInterrupt | Exception string

text \<open>The levels of the \<^verbatim>\<open>logging\<close> module that the watchers use.\<close>

datatype level = INFO | WARNING | ERROR

text \<open>
  One reading of \<^verbatim>\<open>datetime.now(timezone.utc)\<close>: the two renderings the code asks for.
  Every operation below takes the reading as an argument.
\<close>

record datetime =
  isoformat :: string
  strftime :: "string \<Rightarrow> string"

definition newline :: string where
  "newline = [CHR 0x0A]"

definition dquote :: string where
  "dquote = [CHR 0x22]"

text \<open>The dash of the fixed texts is one character, U+2014; it is written here as its
  three UTF-8 bytes.\<close>

definition em_dash :: string where
  "em_dash = [CHR 0xE2, CHR 0x80, CHR 0x94]"

text \<open>A triple-quoted f-string whose lines all end with a line feed.\<close>

definition unlines :: "string list \<Rightarrow> string" where
  "unlines ls = concat (map (\<lambda>l. l @ newline) ls)"

text \<open>\<^verbatim>\<open>s.replace(a, b)\<close> for single characters.\<close>

definition replace_char :: "char \<Rightarrow> char \<Rightarrow> string \<Rightarrow> string" where
  "replace_char a b s = map (\<lambda>c. if c = a then b else c) s"

section \<open>The vault and the audit log\<close>

text \<open>
  A LogEntry as \<^verbatim>\<open>log_action\<close> and \<^verbatim>\<open>_log_action\<close> build it (a dict with five string
  fields, written with \<^verbatim>\<open>json.dumps\<close> on a line of its own).
\<close>

record log_entry =
  timestamp :: string
  action_type :: string
  actor :: string
  details :: string
  result :: string

text \<open>
  A line of a daily log file: \<open>Entry e\<close> is the line \<^verbatim>\<open>json.dumps(e)\<close>, which
  \<^verbatim>\<open>json.loads\<close> reads back as \<open>e\<close>; \<open>Garbled s\<close> is a line on which \<^verbatim>\<open>json.loads\<close> raises
  \<^verbatim>\<open>JSONDecodeError\<close>.
\<close>

datatype log_line = Entry log_entry | Garbled string

text \<open>
  The vault is the directory tree under \<^verbatim>\<open>vault_path\<close>: its stage folders by name
  (\<open>None\<close> when the folder does not exist; a folder lists its entries by name, with a
  file's text), the daily logs \<^verbatim>\<open>Logs/<day>.json\<close> as their lines (no line when the file
  does not exist), and \<^verbatim>\<open>Dashboard.md\<close>. Appending to a daily log always succeeds in
  the model: every component creates \<^verbatim>\<open>Logs\<close> before it writes.
\<close>

type_synonym folder = "(string \<times> string) list"

record vault =
  dirs :: "string \<Rightarrow> folder option"
  logs :: "string \<Rightarrow> log_line list"
  dashboard :: "string option"

definition append_log :: "datetime \<Rightarrow> log_entry \<Rightarrow> vault \<Rightarrow> vault" where
  "append_log now e v =
     (let today = strftime now ''%Y-%m-%d''
      in v\<lparr>logs := (logs v)(today := logs v today @ [Entry e])\<rparr>)"

text \<open>\<^verbatim>\<open>path.write_text(txt)\<close> for a file \<open>name\<close> of folder \<open>d\<close>: the folder must exist.\<close>

definition write_text :: "string \<Rightarrow> string \<Rightarrow> string \<Rightarrow> vault \<Rightarrow> exn + vault" where
  "write_text d name txt v =
     (case dirs v d of
        None \<Rightarrow> Inl (Exception ''FileNotFoundError'')
      | Some es \<Rightarrow> Inr (v\<lparr>dirs := (dirs v)(d \<mapsto> AList.update name txt es)\<rparr>))"

section \<open>base\_watcher.py\<close>

text \<open>The fields of a watcher: the vault (what lies under \<^verbatim>\<open>vault_path\<close>), the path
  itself as the messages print it, the name of the class, the interval, and the records
  the watcher has emitted on a logger.\<close>

record base_watcher =
  store :: vault
  vault_dir :: string
  class_name :: string
  check_interval :: nat
  logger :: "(level \<times> string) list"

definition log_action ::
  "datetime \<Rightarrow> string \<Rightarrow> string \<Rightarrow> string \<Rightarrow> 'a base_watcher_scheme \<Rightarrow> 'a base_watcher_scheme" where
  "log_action now atype det res w =
     (let entry = \<lparr>timestamp = isoformat now, action_type = atype, actor = class_name w,
                   details = det, result = res\<rparr>
      in w\<lparr>store := append_log now entry (store w),
           logger := logger w @ [(INFO, ''['' @ atype @ ''] '' @ det @ '' -> '' @ res)]\<rparr>)"

section \<open>gmail\_watcher.py\<close>

text \<open>
  The mail source is outside the repository. One poll sees it through four calls, and
  the model takes what each call does as given: building the service
  (\<^verbatim>\<open>_get_gmail_service\<close>), \<^verbatim>\<open>messages().list(q, maxResults)\<close> (the ids of
  \<^verbatim>\<open>result.get("messages", [])\<close>), \<^verbatim>\<open>messages().get(id)\<close> and \<^verbatim>\<open>messages().modify(id)\<close>.
  A message is what the watcher reads of it, absent keys holding the defaults of the
  \<^verbatim>\<open>.get\<close> calls.
\<close>

record gmail_message =
  payload_headers :: "(string \<times> string) list"
  msg_snippet :: string
  threadId :: string

record gmail_api =
  build_service :: "exn option"
  list_messages :: "string \<Rightarrow> nat \<Rightarrow> exn + string list"
  get_message :: "string \<Rightarrow> exn + gmail_message"
  modify_message :: "string \<Rightarrow> exn option"

text \<open>The dict \<^verbatim>\<open>email_data\<close>; \<open>from'\<close> is its key \<^verbatim>\<open>"from"\<close>, \<open>msg_id\<close> its key \<^verbatim>\<open>"id"\<close>.\<close>

record email =
  msg_id :: string
  subject :: string
  from' :: string
  date :: string
  snippet :: string
  thread_id :: string

record gmail_watcher = base_watcher +
  processed_ids :: "string set"
  service :: bool

text \<open>\<^verbatim>\<open>headers.get(k, d)\<close> on the dict comprehension over the header list: the last
  header of a name wins.\<close>

definition header_get :: "(string \<times> string) list \<Rightarrow> string \<Rightarrow> string \<Rightarrow> string" where
  "header_get hs k d = (case map_of (rev hs) k of None \<Rightarrow> d | Some v \<Rightarrow> v)"

definition email_data :: "string \<Rightarrow> gmail_message \<Rightarrow> email" where
  "email_data i msg =
     \<lparr>msg_id = i,
      subject = header_get (payload_headers msg) ''Subject'' ''(no subject)'',
      from' = header_get (payload_headers msg) ''From'' ''unknown'',
      date = header_get (payload_headers msg) ''Date'' [],
      snippet = msg_snippet msg,
      thread_id = threadId msg\<rparr>"

definition ensure_service :: "gmail_api \<Rightarrow> gmail_watcher \<Rightarrow> exn + gmail_watcher" where
  "ensure_service api w =
     (if service w then Inr w
      else case build_service api of
             Some e \<Rightarrow> Inl e
           | None \<Rightarrow> Inr (w\<lparr>service := True\<rparr>))"

text \<open>The loop over \<^verbatim>\<open>messages\<close> in \<^verbatim>\<open>check_for_updates\<close>, \<open>new_emails\<close> its accumulator.\<close>

fun fetch_messages ::
  "gmail_api \<Rightarrow> string list \<Rightarrow> email list \<Rightarrow> gmail_watcher \<Rightarrow> (exn + email list) \<times> gmail_watcher" where
  "fetch_messages api [] new_emails w = (Inr new_emails, w)"
| "fetch_messages api (i # stubs) new_emails w =
     (if i \<in> processed_ids w then fetch_messages api stubs new_emails w
      else case get_message api i of
             Inl (Exception s) \<Rightarrow>
               fetch_messages api stubs new_emails
                 (w\<lparr>logger := logger w @ [(ERROR, ''Failed to fetch message '' @ i @ '': '' @ s)]\<rparr>)
           | Inl KeyboardInterrupt \<Rightarrow> (Inl KeyboardInterrupt, w)
           | Inr msg \<Rightarrow> fetch_messages api stubs (new_emails @ [email_data i msg]) w)"

definition GmailWatcher_check_for_updates ::
  "gmail_api \<Rightarrow> gmail_watcher \<Rightarrow> (exn + email list) \<times> gmail_watcher" where
  "GmailWatcher_check_for_updates api w =
     (case ensure_service api w of
        Inl e \<Rightarrow> (Inl e, w)
      | Inr w1 \<Rightarrow>
          (case list_messages api ''is:unread is:important'' 20 of
             Inl (Exception s) \<Rightarrow>
               (Inr [], w1\<lparr>logger := logger w1 @ [(ERROR, ''Gmail API list failed: '' @ s)]\<rparr>)
           | Inl KeyboardInterrupt \<Rightarrow> (Inl KeyboardInterrupt, w1)
           | Inr messages \<Rightarrow> fetch_messages api messages [] w1))"

definition mark_as_read :: "gmail_api \<Rightarrow> string \<Rightarrow> gmail_watcher \<Rightarrow> (exn + unit) \<times> gmail_watcher" where
  "mark_as_read api i w =
     (case ensure_service api w of
        Inl (Exception s) \<Rightarrow>
          (Inr (), w\<lparr>logger := logger w @
                    [(WARNING, ''Could not mark message '' @ i @ '' as read: '' @ s)]\<rparr>)
      | Inl KeyboardInterrupt \<Rightarrow> (Inl KeyboardInterrupt, w)
      | Inr w1 \<Rightarrow>
          (case modify_message api i of
             Some (Exception s) \<Rightarrow>
               (Inr (), w1\<lparr>logger := logger w1 @
                          [(WARNING, ''Could not mark message '' @ i @ '' as read: '' @ s)]\<rparr>)
           | Some KeyboardInterrupt \<Rightarrow> (Inl KeyboardInterrupt, w1)
           | None \<Rightarrow> (Inr (), w1)))"

definition email_content :: "datetime \<Rightarrow> email \<Rightarrow> string \<Rightarrow> string" where
  "email_content now item safe_id =
     (let safe_subject = replace_char (CHR 0x22) (CHR 0x27) (subject item);
          safe_from = replace_char (CHR 0x22) (CHR 0x27) (from' item)
      in unlines
        [''---'',
         ''type: email'',
         ''source: gmail'',
         ''email_id: '' @ dquote @ safe_id @ dquote,
         ''subject: '' @ dquote @ safe_subject @ dquote,
         ''from: '' @ dquote @ safe_from @ dquote,
         ''date: '' @ dquote @ date item @ dquote,
         ''thread_id: '' @ dquote @ thread_id item @ dquote,
         ''received: '' @ isoformat now,
         ''priority: high'',
         ''status: pending'',
         ''---'',
         [],
         ''## Incoming Email'',
         [],
         ''**From:** '' @ from' item,
         ''**Subject:** '' @ subject item,
         ''**Date:** '' @ date item,
         [],
         ''## Preview'',
         [],
         snippet item,
         [],
         ''## Suggested Actions'',
         ''- [ ] Read full email thread'',
         ''- [ ] Determine if reply is needed'',
         ''- [ ] Draft reply or escalate for human review'',
         ''- [ ] Move to /Done when complete'',
         [],
         ''## To Reply'',
         ''Create a reply draft and place in /Pending_Approval/ for human review.''])"

text \<open>The name of the record file, \<^verbatim>\<open>f"{file_id}.md"\<close>: it carries the id cut to 16
  characters.\<close>

definition email_file_name :: "datetime \<Rightarrow> email \<Rightarrow> string" where
  "email_file_name now item =
     (let safe_id = take 16 (msg_id item);
          file_id = ''EMAIL_'' @ safe_id @ ''_'' @ strftime now ''%Y%m%d_%H%M%S''
      in file_id @ ''.md'')"

text \<open>\<^verbatim>\<open>GmailWatcher.create_action_file\<close> returns the path of the record; the model
  returns its name in \<^verbatim>\<open>Needs_Action\<close>.\<close>

definition GmailWatcher_create_action_file ::
  "datetime \<Rightarrow> gmail_api \<Rightarrow> email \<Rightarrow> gmail_watcher \<Rightarrow> (exn + string) \<times> gmail_watcher" where
  "GmailWatcher_create_action_file now api item w =
     (let safe_id = take 16 (msg_id item);
          meta_name = email_file_name now item
      in case write_text ''Needs_Action'' meta_name (email_content now item safe_id) (store w) of
           Inl e \<Rightarrow> (Inl e, w)
         | Inr v \<Rightarrow>
             (case mark_as_read api (msg_id item) (w\<lparr>store := v\<rparr>) of
                (Inl e, w1) \<Rightarrow> (Inl e, w1)
              | (Inr u, w1) \<Rightarrow>
                  (Inr meta_name,
                   w1\<lparr>processed_ids := insert (msg_id item) (processed_ids w1),
                      logger := logger w1 @ [(INFO, ''Email action file created: '' @ meta_name)]\<rparr>)))"

section \<open>Python string and path operations\<close>

text \<open>
  Strings are lists of characters, a character standing for its code point (below 256).
  The two operations on names follow \<^verbatim>\<open>pathlib\<close>: the suffix of a name starts at its
  last dot, unless that dot is the first or the last character of the name.
\<close>

definition startswith :: "string \<Rightarrow> string \<Rightarrow> bool" where
  "startswith s p = (take (length p) s = p)"

definition endswith :: "string \<Rightarrow> string \<Rightarrow> bool" where
  "endswith s p = (length p \<le> length s \<and> drop (length s - length p) s = p)"

definition after_last_dot :: "string \<Rightarrow> string" where
  "after_last_dot name = rev (takeWhile (\<lambda>c. c \<noteq> CHR ''.'') (rev name))"

definition has_suffix :: "string \<Rightarrow> bool" where
  "has_suffix name =
     (CHR ''.'' \<in> set name \<and> after_last_dot name \<noteq> [] \<and> length (after_last_dot name) + 1 < length name)"

definition path_suffix :: "string \<Rightarrow> string" where
  "path_suffix name = (if has_suffix name then CHR ''.'' # after_last_dot name else [])"

definition path_stem :: "string \<Rightarrow> string" where
  "path_stem name =
     (if has_suffix name then take (length name - length (after_last_dot name) - 1) name else name)"

text \<open>\<^verbatim>\<open>str.lower\<close> on code points below 256.\<close>

definition lower_char :: "char \<Rightarrow> char" where
  "lower_char c =
     (let n = (of_char c :: nat)
      in if (65 \<le> n \<and> n \<le> 90) \<or> (192 \<le> n \<and> n \<le> 222 \<and> n \<noteq> 215) then char_of (n + 32) else c)"

definition lower :: "string \<Rightarrow> string" where
  "lower s = map lower_char s"

text \<open>\<^verbatim>\<open>str(n)\<close> of a natural number, as an f-string prints it.\<close>

definition digit :: "nat \<Rightarrow> char" where
  "digit d = char_of (48 + d)"

fun str_nat :: "nat \<Rightarrow> string" where
  "str_nat n = (if n < 10 then [digit n] else str_nat (n div 10) @ [digit (n mod 10)])"

declare str_nat.simps [simp del]

section \<open>filesystem\_watcher.py\<close>

text \<open>
  The drop folder is a directory of its own (\<^verbatim>\<open>self.drop_folder\<close>): its files by name,
  with their bytes. A path of \<^verbatim>\<open>pending_files\<close> is a file of that directory and is
  written as its name, which is also the natural key (\<^verbatim>\<open>filepath.name\<close>). \<open>drop_dir\<close>
  is the path of the directory as the messages print it.
\<close>

record fs_watcher = base_watcher +
  drop_folder :: folder
  drop_dir :: string
  pending_files :: "string list"
  processed_files :: "string set"

text \<open>A \<^verbatim>\<open>watchdog\<close> creation event: what \<^verbatim>\<open>on_created\<close> reads of it.\<close>

record fs_event =
  is_directory :: bool
  src_name :: string

definition on_created :: "fs_event \<Rightarrow> fs_watcher \<Rightarrow> fs_watcher" where
  "on_created event w =
     (if is_directory event then w
      else if startswith (src_name event) ''.'' then w
      else w\<lparr>pending_files := pending_files w @ [src_name event],
             logger := logger w @ [(INFO, ''New file detected: '' @ src_name event)]\<rparr>)"

definition path_exists :: "folder \<Rightarrow> string \<Rightarrow> bool" where
  "path_exists d name = (map_of d name \<noteq> None)"

text \<open>The \<^verbatim>\<open>while self.pending_files\<close> loop: each turn pops the head of the queue.\<close>

fun drain :: "string list \<Rightarrow> string set \<Rightarrow> folder \<Rightarrow> string list \<Rightarrow> string list" where
  "drain [] processed d new_items = new_items"
| "drain (filepath # pending) processed d new_items =
     (if filepath \<notin> processed \<and> path_exists d filepath
      then drain pending processed d (new_items @ [filepath])
      else drain pending processed d new_items)"

definition FileSystemWatcher_check_for_updates :: "fs_watcher \<Rightarrow> string list \<times> fs_watcher" where
  "FileSystemWatcher_check_for_updates w =
     (drain (pending_files w) (processed_files w) (drop_folder w) [], w\<lparr>pending_files := []\<rparr>)"

definition type_map :: "(string \<times> string) list" where
  "type_map =
     [(''.pdf'', ''document''), (''.doc'', ''document''), (''.docx'', ''document''),
      (''.txt'', ''text''), (''.md'', ''markdown''), (''.csv'', ''data''),
      (''.xlsx'', ''spreadsheet''), (''.xls'', ''spreadsheet''), (''.jpg'', ''image''),
      (''.jpeg'', ''image''), (''.png'', ''image''), (''.gif'', ''image'')]"

definition file_type_of :: "string \<Rightarrow> string" where
  "file_type_of ext = (case map_of type_map ext of None \<Rightarrow> ''file'' | Some t \<Rightarrow> t)"

text \<open>
  \<^verbatim>\<open>_human_size\<close> divides and prints floating-point numbers; its text is taken as
  given (the argument \<open>human_size\<close>). \<open>size_bytes\<close> is \<^verbatim>\<open>item.stat().st_size\<close>.
\<close>

definition file_meta_content ::
  "datetime \<Rightarrow> (nat \<Rightarrow> string) \<Rightarrow> string \<Rightarrow> nat \<Rightarrow> string" where
  "file_meta_content now human_size name size_bytes =
     (let ext = lower (path_suffix name);
          file_type = file_type_of ext
      in unlines
        [''---'',
         ''type: file_drop'',
         ''source: drop_folder'',
         ''original_name: '' @ dquote @ name @ dquote,
         ''file_type: '' @ file_type,
         ''size_bytes: '' @ str_nat size_bytes,
         ''received: '' @ isoformat now,
         ''priority: medium'',
         ''status: pending'',
         ''---'',
         [],
         ''## Dropped File'',
         [],
         ''**File:** '' @ [CHR 0x60] @ name @ [CHR 0x60],
         ''**Type:** '' @ file_type @ '' ('' @ ext @ '')'',
         ''**Size:** '' @ human_size size_bytes,
         ''**Received:** '' @ strftime now ''%Y-%m-%d %H:%M:%S UTC'',
         [],
         ''## Suggested Actions'',
         ''- [ ] Review file contents'',
         ''- [ ] Categorize and file appropriately'',
         ''- [ ] Process any actionable items'',
         ''- [ ] Move to /Done when complete''])"

text \<open>\<^verbatim>\<open>file_id\<close>: the stem with its blanks replaced, and the time stamp.\<close>

definition file_id_of :: "datetime \<Rightarrow> string \<Rightarrow> string" where
  "file_id_of now name =
     (let safe_name = replace_char (CHR '' '') (CHR ''_'') (path_stem name)
      in ''FILE_'' @ safe_name @ ''_'' @ strftime now ''%Y%m%d_%H%M%S'')"

text \<open>
  \<^verbatim>\<open>FileSystemWatcher.create_action_file\<close>: \<^verbatim>\<open>shutil.copy2\<close> raises when the dropped
  file is gone or \<^verbatim>\<open>Needs_Action\<close> does not exist; the copy stays when the later write
  raises. The result is the name of the metadata record in \<^verbatim>\<open>Needs_Action\<close>.
\<close>

definition FileSystemWatcher_create_action_file ::
  "datetime \<Rightarrow> (nat \<Rightarrow> string) \<Rightarrow> string \<Rightarrow> fs_watcher \<Rightarrow> (exn + string) \<times> fs_watcher" where
  "FileSystemWatcher_create_action_file now human_size item w =
     (let file_id = file_id_of now item
      in case map_of (drop_folder w) item of
           None \<Rightarrow> (Inl (Exception ''FileNotFoundError''), w)
         | Some bytes \<Rightarrow>
             (case write_text ''Needs_Action'' (file_id @ path_suffix item) bytes (store w) of
                Inl e \<Rightarrow> (Inl e, w)
              | Inr v1 \<Rightarrow>
                  (case write_text ''Needs_Action'' (file_id @ ''.md'')
                          (file_meta_content now human_size item (length bytes)) v1 of
                     Inl e \<Rightarrow> (Inl e, w\<lparr>store := v1\<rparr>)
                   | Inr v2 \<Rightarrow>
                       (Inr (file_id @ ''.md''),
                        w\<lparr>store := v2,
                          processed_files := insert item (processed_files w),
                          logger := logger w @ [(INFO, ''Action file created: '' @ file_id @ ''.md'')]\<rparr>))))"

section \<open>linkedin\_watcher.py\<close>

subsection \<open>The string methods it uses\<close>

text \<open>
  \<^verbatim>\<open>str.strip()\<close> removes white space, \<^verbatim>\<open>str.splitlines()\<close> cuts at line boundaries
  (a carriage return followed by a line feed is one boundary, and a final boundary
  opens no further line), \<^verbatim>\<open>str.split(sep, n)\<close> cuts at the first \<open>n\<close> occurrences of a
  non-empty separator and \<^verbatim>\<open>sep.join\<close> puts the separator between the parts.
\<close>

definition is_space :: "char \<Rightarrow> bool" where
  "is_space c =
     (let n = (of_char c :: nat)
      in (9 \<le> n \<and> n \<le> 13) \<or> (28 \<le> n \<and> n \<le> 32) \<or> n = 133 \<or> n = 160)"

definition strip :: "string \<Rightarrow> string" where
  "strip s = rev (dropWhile is_space (rev (dropWhile is_space s)))"

definition strip_char :: "char \<Rightarrow> string \<Rightarrow> string" where
  "strip_char q s = rev (dropWhile (\<lambda>c. c = q) (rev (dropWhile (\<lambda>c. c = q) s)))"

definition is_linebreak :: "char \<Rightarrow> bool" where
  "is_linebreak c =
     (let n = (of_char c :: nat)
      in (10 \<le> n \<and> n \<le> 13) \<or> (28 \<le> n \<and> n \<le> 30) \<or> n = 133)"

fun cons_line :: "char \<Rightarrow> string list \<Rightarrow> string list" where
  "cons_line c [] = [[c]]"
| "cons_line c (l # ls) = (c # l) # ls"

fun splitlines :: "string \<Rightarrow> string list" where
  "splitlines [] = []"
| "splitlines [c] = (if is_linebreak c then [[]] else [[c]])"
| "splitlines (c # d # cs) =
     (if c = CHR 0x0D \<and> d = CHR 0x0A then [] # splitlines cs
      else if is_linebreak c then [] # splitlines (d # cs)
      else cons_line c (splitlines (d # cs)))"

text \<open>The text before and after the first occurrence of a separator, if there is one.\<close>

fun partition_at :: "string \<Rightarrow> string \<Rightarrow> (string \<times> string) option" where
  "partition_at sep [] = None"
| "partition_at sep (c # cs) =
     (if take (length sep) (c # cs) = sep then Some ([], drop (length sep) (c # cs))
      else map_option (\<lambda>(a, b). (c # a, b)) (partition_at sep cs))"

fun split_n :: "string \<Rightarrow> nat \<Rightarrow> string \<Rightarrow> string list" where
  "split_n sep 0 s = [s]"
| "split_n sep (Suc n) s =
     (case partition_at sep s of
        None \<Rightarrow> [s]
      | Some (a, b) \<Rightarrow> a # split_n sep n b)"

fun join :: "string \<Rightarrow> string list \<Rightarrow> string" where
  "join sep [] = []"
| "join sep [x] = x"
| "join sep (x # y # ys) = x @ sep @ join sep (y # ys)"

subsection \<open>Reading an approved post\<close>

text \<open>\<^verbatim>\<open>_parse_frontmatter\<close>: the dict as a map; a later line of a key replaces an
  earlier one.\<close>

definition frontmatter_line :: "string \<Rightarrow> (string \<rightharpoonup> string) \<Rightarrow> (string \<rightharpoonup> string)" where
  "frontmatter_line line metadata =
     (case partition_at '':'' line of
        None \<Rightarrow> metadata
      | Some (key, v) \<Rightarrow>
          metadata(strip key \<mapsto> strip_char (CHR 0x27) (strip_char (CHR 0x22) (strip v))))"

definition parse_frontmatter :: "string \<Rightarrow> (string \<rightharpoonup> string)" where
  "parse_frontmatter content =
     (if \<not> startswith content ''---'' then Map.empty
      else let parts = split_n ''---'' 2 content
           in if length parts < 3 then Map.empty
              else fold frontmatter_line (splitlines (strip (parts ! 1))) Map.empty)"

text \<open>The loop of \<^verbatim>\<open>_extract_post_body\<close> over the lines, with its flag \<open>in_body\<close>.\<close>

fun body_lines_of :: "string list \<Rightarrow> bool \<Rightarrow> string list \<Rightarrow> string list" where
  "body_lines_of [] in_body body_lines = body_lines"
| "body_lines_of (line # lines) in_body body_lines =
     (if lower (strip line) \<in> set [''## post content'', ''## content'', ''## post body'']
      then body_lines_of lines True body_lines
      else if in_body
           then (if startswith line ''##'' then body_lines
                 else body_lines_of lines in_body (body_lines @ [line]))
           else body_lines_of lines in_body body_lines)"

definition extract_post_body :: "string \<Rightarrow> string" where
  "extract_post_body content = strip (join newline (body_lines_of (splitlines content) False []))"

subsection \<open>The poster\<close>

record linkedin_poster = base_watcher +
  linkedin_email :: string
  linkedin_password :: string

text \<open>
  The browser session is outside the repository; the model takes as given what each
  group of Playwright calls of \<^verbatim>\<open>_post_to_linkedin\<close> and \<^verbatim>\<open>_login\<close> does:
  whether the import succeeds, what the calls before the \<^verbatim>\<open>try\<close> raise (creating the
  session directory, launching the persistent context, opening the page), what loading the
  feed raises, whether the feed shows the login wall, what the calls of \<^verbatim>\<open>_login\<close>
  raise, what the calls from "Start a post" to the Post button raise, and whether the
  error screenshot can be saved.
\<close>

record browser =
  playwright_installed :: bool
  launch_raises :: "exn option"
  feed_raises :: "exn option"
  login_wall :: bool
  login_raises :: "exn option"
  post_raises :: "exn option"
  screenshot_saved :: bool

definition emit :: "level \<Rightarrow> string \<Rightarrow> 'a base_watcher_scheme \<Rightarrow> 'a base_watcher_scheme" where
  "emit lvl msg w = w\<lparr>logger := logger w @ [(lvl, msg)]\<rparr>"

definition login :: "browser \<Rightarrow> linkedin_poster \<Rightarrow> (exn + bool) \<times> linkedin_poster" where
  "login b w =
     (if linkedin_email w = [] \<or> linkedin_password w = []
      then (Inr False, emit ERROR ''LINKEDIN_EMAIL and LINKEDIN_PASSWORD env vars required for login'' w)
      else case login_raises b of
             None \<Rightarrow> (Inr True, emit INFO ''LinkedIn login successful'' w)
           | Some (Exception s) \<Rightarrow> (Inr False, emit ERROR (''Login failed: '' @ s) w)
           | Some KeyboardInterrupt \<Rightarrow> (Inl KeyboardInterrupt, w))"

text \<open>The body of the \<^verbatim>\<open>try\<close> of \<^verbatim>\<open>_post_to_linkedin\<close>.\<close>

definition post_session ::
  "browser \<Rightarrow> string \<Rightarrow> linkedin_poster \<Rightarrow> (exn + bool) \<times> linkedin_poster" where
  "post_session b post_id w =
     (case feed_raises b of
        Some e \<Rightarrow> (Inl e, w)
      | None \<Rightarrow>
          (case (if login_wall b
                 then (case login b (emit INFO ''Not logged in, attempting login...'' w) of
                         (Inl e, w1) \<Rightarrow> (Inl e, w1)
                       | (Inr False, w1) \<Rightarrow> (Inr False, emit ERROR ''LinkedIn login failed'' w1)
                       | (Inr True, w1) \<Rightarrow> (Inr True, w1))
                 else (Inr True, w)) of
             (Inl e, w1) \<Rightarrow> (Inl e, w1)
           | (Inr False, w1) \<Rightarrow> (Inr False, w1)
           | (Inr True, w1) \<Rightarrow>
               (case post_raises b of
                  Some e \<Rightarrow> (Inl e, w1)
                | None \<Rightarrow> (Inr True, emit INFO (''Successfully posted to LinkedIn: '' @ post_id) w1))))"

definition post_to_linkedin ::
  "browser \<Rightarrow> string \<Rightarrow> string \<Rightarrow> linkedin_poster \<Rightarrow> (exn + bool) \<times> linkedin_poster" where
  "post_to_linkedin b post_text post_id w =
     (if \<not> playwright_installed b
      then (Inr False,
            emit ERROR ''Playwright not installed. Run: pip install playwright && playwright install chromium'' w)
      else let w0 = emit INFO (''Launching browser for LinkedIn post: '' @ post_id) w
           in case launch_raises b of
                Some e \<Rightarrow> (Inl e, w0)
              | None \<Rightarrow>
                  (case post_session b post_id w0 of
                     (Inr ok, w1) \<Rightarrow> (Inr ok, w1)
                   | (Inl KeyboardInterrupt, w1) \<Rightarrow> (Inl KeyboardInterrupt, w1)
                   | (Inl (Exception s), w1) \<Rightarrow>
                       (let w2 = emit ERROR (''Playwright error during LinkedIn post: '' @ s) w1;
                            w3 = (if screenshot_saved b
                                  then emit INFO (''Error screenshot saved: '' @ vault_dir w2 @ ''/Logs/linkedin_error_''
                                                   @ post_id @ ''.png'') w2
                                  else w2)
                        in (Inr False, w3))))"

text \<open>\<^verbatim>\<open>shutil.move\<close> of a file of one folder to a name in another: the file and both
  folders must exist.\<close>

definition move_file :: "string \<Rightarrow> string \<Rightarrow> string \<Rightarrow> string \<Rightarrow> vault \<Rightarrow> exn + vault" where
  "move_file sd sn dd dn v =
     (case dirs v sd of
        None \<Rightarrow> Inl (Exception ''FileNotFoundError'')
      | Some ses \<Rightarrow>
          (case map_of ses sn of
             None \<Rightarrow> Inl (Exception ''FileNotFoundError'')
           | Some txt \<Rightarrow>
               (let v1 = v\<lparr>dirs := (dirs v)(sd \<mapsto> AList.delete sn ses)\<rparr>
                in case dirs v1 dd of
                     None \<Rightarrow> Inl (Exception ''FileNotFoundError'')
                   | Some des \<Rightarrow> Inr (v1\<lparr>dirs := (dirs v1)(dd \<mapsto> AList.update dn txt des)\<rparr>))))"

text \<open>\<^verbatim>\<open>_archive\<close>: the status is a part of the name of the file in \<^verbatim>\<open>Done\<close>; the text of
  the file is not touched.\<close>

definition archive_name :: "datetime \<Rightarrow> string \<Rightarrow> string \<Rightarrow> string" where
  "archive_name now source status =
     path_stem source @ ''_'' @ status @ ''_'' @ strftime now ''%Y%m%d_%H%M%S'' @ ''.md''"

definition archive ::
  "datetime \<Rightarrow> string \<Rightarrow> string \<Rightarrow> linkedin_poster \<Rightarrow> (exn + unit) \<times> linkedin_poster" where
  "archive now source status w =
     (case move_file ''Approved'' source ''Done'' (archive_name now source status) (store w) of
        Inl e \<Rightarrow> (Inl e, w)
      | Inr v \<Rightarrow>
          (Inr (), emit INFO (''Archived '' @ source @ '' -> '' @ archive_name now source status)
                     (w\<lparr>store := v\<rparr>)))"

definition read_text :: "string \<Rightarrow> string \<Rightarrow> vault \<Rightarrow> exn + string" where
  "read_text d name v =
     (case dirs v d of
        None \<Rightarrow> Inl (Exception ''FileNotFoundError'')
      | Some es \<Rightarrow>
          (case map_of es name of
             None \<Rightarrow> Inl (Exception ''FileNotFoundError'')
           | Some txt \<Rightarrow> Inr txt))"

text \<open>\<^verbatim>\<open>sorted(self.approved_dir.glob("LINKEDIN_*.md"))\<close>, by name.\<close>

definition glob_linkedin :: "vault \<Rightarrow> string list" where
  "glob_linkedin v =
     (case dirs v ''Approved'' of
        None \<Rightarrow> []
      | Some es \<Rightarrow>
          sort (filter (\<lambda>n. startswith n ''LINKEDIN_'' \<and> endswith n ''.md'' \<and> 12 \<le> length n)
                  (map fst es)))"

definition is_pending_post :: "vault \<Rightarrow> string \<Rightarrow> bool" where
  "is_pending_post v name =
     (name \<noteq> ''.gitkeep'' \<and>
      (case read_text ''Approved'' name v of
         Inl e \<Rightarrow> False
       | Inr content \<Rightarrow>
           (let meta = parse_frontmatter content
            in meta ''type'' = Some ''linkedin_post'' \<and> meta ''status'' \<noteq> Some ''posted'')))"

definition LinkedInPoster_check_for_updates :: "linkedin_poster \<Rightarrow> string list" where
  "LinkedInPoster_check_for_updates w = filter (is_pending_post (store w)) (glob_linkedin (store w))"

text \<open>\<^verbatim>\<open>LinkedInPoster.create_action_file\<close>; an item is the name of a file of
  \<^verbatim>\<open>Approved\<close>, and the call returns the item.\<close>

definition archive_and_log ::
  "datetime \<Rightarrow> string \<Rightarrow> string \<Rightarrow> string \<Rightarrow> string \<Rightarrow> linkedin_poster \<Rightarrow> (exn + string) \<times> linkedin_poster" where
  "archive_and_log now item status det res w =
     (case archive now item status w of
        (Inl e, w1) \<Rightarrow> (Inl e, w1)
      | (Inr u, w1) \<Rightarrow> (Inr item, log_action now ''linkedin_post'' (det @ item) res w1))"

definition LinkedInPoster_create_action_file ::
  "datetime \<Rightarrow> browser \<Rightarrow> string \<Rightarrow> linkedin_poster \<Rightarrow> (exn + string) \<times> linkedin_poster" where
  "LinkedInPoster_create_action_file now b item w =
     (case read_text ''Approved'' item (store w) of
        Inl e \<Rightarrow> (Inl e, w)
      | Inr content \<Rightarrow>
          (let post_body = extract_post_body content
           in if post_body = []
              then (case archive now item ''skipped_empty_body''
                           (emit WARNING (''No post body found in '' @ item @ '', skipping.'') w) of
                      (Inl e, w1) \<Rightarrow> (Inl e, w1)
                    | (Inr u, w1) \<Rightarrow> (Inr item, w1))
              else (case post_to_linkedin b post_body (path_stem item) w of
                      (Inl e, w1) \<Rightarrow> (Inl e, w1)
                    | (Inr True, w1) \<Rightarrow> archive_and_log now item ''posted'' ''Posted: '' ''success'' w1
                    | (Inr False, w1) \<Rightarrow> archive_and_log now item ''post_failed'' ''Failed: '' ''error'' w1)))"

section \<open>The run loops\<close>

text \<open>
  The \<^verbatim>\<open>for item in items\<close> loop that both \<^verbatim>\<open>BaseWatcher.run\<close> and
  \<^verbatim>\<open>FileSystemWatcher.run\<close> have: materialize, then log the record's name. The first
  exception ends it.
\<close>

fun process_items ::
  "datetime \<Rightarrow> ('i \<Rightarrow> 'a base_watcher_scheme \<Rightarrow> (exn + string) \<times> 'a base_watcher_scheme) \<Rightarrow>
   'i list \<Rightarrow> 'a base_watcher_scheme \<Rightarrow> (exn + unit) \<times> 'a base_watcher_scheme" where
  "process_items now create [] w = (Inr (), w)"
| "process_items now create (item # items) w =
     (case create item w of
        (Inl e, w1) \<Rightarrow> (Inl e, w1)
      | (Inr filepath, w1) \<Rightarrow>
          process_items now create items
            (log_action now ''action_file_created'' (''Created '' @ filepath) ''success'' w1))"

text \<open>The body of the \<^verbatim>\<open>try\<close> of \<^verbatim>\<open>BaseWatcher.run\<close>; \<open>check\<close> and \<open>create\<close> are the
  two abstract methods.\<close>

definition cycle_body ::
  "datetime \<Rightarrow> ('a base_watcher_scheme \<Rightarrow> (exn + 'i list) \<times> 'a base_watcher_scheme) \<Rightarrow>
   ('i \<Rightarrow> 'a base_watcher_scheme \<Rightarrow> (exn + string) \<times> 'a base_watcher_scheme) \<Rightarrow>
   'a base_watcher_scheme \<Rightarrow> (exn + unit) \<times> 'a base_watcher_scheme" where
  "cycle_body now check create w =
     (case check w of
        (Inl e, w1) \<Rightarrow> (Inl e, w1)
      | (Inr items, w1) \<Rightarrow> process_items now create items w1)"

datatype loop = Continue | Break

text \<open>One turn of the \<^verbatim>\<open>while True\<close> of \<^verbatim>\<open>BaseWatcher.run\<close>, with its two handlers.\<close>

definition BaseWatcher_cycle ::
  "datetime \<Rightarrow> ('a base_watcher_scheme \<Rightarrow> (exn + 'i list) \<times> 'a base_watcher_scheme) \<Rightarrow>
   ('i \<Rightarrow> 'a base_watcher_scheme \<Rightarrow> (exn + string) \<times> 'a base_watcher_scheme) \<Rightarrow>
   'a base_watcher_scheme \<Rightarrow> loop \<times> 'a base_watcher_scheme" where
  "BaseWatcher_cycle now check create w =
     (case cycle_body now check create w of
        (Inr u, w1) \<Rightarrow> (Continue, w1)
      | (Inl KeyboardInterrupt, w1) \<Rightarrow>
          (Break, log_action now ''watcher_stop'' ''Stopped by user'' ''success''
                    (emit INFO ''Watcher stopped by user'' w1))
      | (Inl (Exception s), w1) \<Rightarrow>
          (Continue, log_action now ''watcher_error'' s ''error''
                       (emit ERROR (''Error in watcher loop: '' @ s) w1)))"

text \<open>
  What a run has come to after the turns it was given: still in its loop, returned, or
  left by an exception. A loop takes one clock reading for each turn.
\<close>

datatype outcome = Running | Returned | Raised exn

fun BaseWatcher_loop ::
  "datetime list \<Rightarrow> ('a base_watcher_scheme \<Rightarrow> (exn + 'i list) \<times> 'a base_watcher_scheme) \<Rightarrow>
   (datetime \<Rightarrow> 'i \<Rightarrow> 'a base_watcher_scheme \<Rightarrow> (exn + string) \<times> 'a base_watcher_scheme) \<Rightarrow>
   'a base_watcher_scheme \<Rightarrow> outcome \<times> 'a base_watcher_scheme" where
  "BaseWatcher_loop [] check create w = (Running, w)"
| "BaseWatcher_loop (now # turns) check create w =
     (case BaseWatcher_cycle now check (create now) w of
        (Break, w1) \<Rightarrow> (Returned, w1)
      | (Continue, w1) \<Rightarrow> BaseWatcher_loop turns check create w1)"

definition BaseWatcher_run ::
  "datetime \<Rightarrow> datetime list \<Rightarrow>
   ('a base_watcher_scheme \<Rightarrow> (exn + 'i list) \<times> 'a base_watcher_scheme) \<Rightarrow>
   (datetime \<Rightarrow> 'i \<Rightarrow> 'a base_watcher_scheme \<Rightarrow> (exn + string) \<times> 'a base_watcher_scheme) \<Rightarrow>
   'a base_watcher_scheme \<Rightarrow> outcome \<times> 'a base_watcher_scheme" where
  "BaseWatcher_run start turns check create w =
     BaseWatcher_loop turns check create
       (log_action start ''watcher_start'' (class_name w @ '' started'') ''success''
          (emit INFO (''Starting '' @ class_name w @ '' (interval: '' @ str_nat (check_interval w) @ ''s)'') w))"




text \<open>
  The two overrides of \<^verbatim>\<open>run\<close> that log their own start and then call
  \<^verbatim>\<open>super().run()\<close>, with the watcher's own detect and materialize as the two methods.
\<close>

definition GmailWatcher_run ::
  "datetime \<Rightarrow> datetime list \<Rightarrow> gmail_api \<Rightarrow> gmail_watcher \<Rightarrow> outcome \<times> gmail_watcher" where
  "GmailWatcher_run start turns api w =
     BaseWatcher_run start turns (GmailWatcher_check_for_updates api)
       (\<lambda>now. GmailWatcher_create_action_file now api)
       (log_action start ''watcher_start''
          (''GmailWatcher started (interval: '' @ str_nat (check_interval w) @ ''s)'') ''success'' w)"

definition LinkedInPoster_run ::
  "datetime \<Rightarrow> datetime list \<Rightarrow> browser \<Rightarrow> linkedin_poster \<Rightarrow> outcome \<times> linkedin_poster" where
  "LinkedInPoster_run start turns b w =
     BaseWatcher_run start turns (\<lambda>w. (Inr (LinkedInPoster_check_for_updates w), w))
       (\<lambda>now. LinkedInPoster_create_action_file now b)
       (log_action start ''watcher_start''
          (''LinkedInPoster started (interval: '' @ str_nat (check_interval w) @ ''s)'') ''success'' w)"

section \<open>orchestrator.py\<close>

text \<open>
  \<^verbatim>\<open>WatcherThread\<close>: its name, the arguments of its target (the vault path, the drop
  folder and the interval that \<^verbatim>\<open>_start_filesystem_watcher\<close> passes on), the exception it
  has kept, and whether it is alive.
\<close>

record watcher_thread =
  thread_name :: string
  args :: "string \<times> string \<times> nat"
  exception :: "exn option"
  alive :: bool

record orchestrator =
  vault_path :: string
  drop_path :: string
  disk :: vault
  fs_thread :: watcher_thread
  orch_logger :: "(level \<times> string) list"
  clock :: nat

definition orch_log_action :: "datetime \<Rightarrow> string \<Rightarrow> string \<Rightarrow> string \<Rightarrow> vault \<Rightarrow> vault" where
  "orch_log_action now atype det res v =
     append_log now
       \<lparr>timestamp = isoformat now, action_type = atype, actor = ''Orchestrator'',
        details = det, result = res\<rparr> v"

text \<open>
  \<^verbatim>\<open>WatcherThread.run\<close>, given what became of its target: an exception is kept and
  logged on the process logger; nothing is written to the audit log.
\<close>

definition WatcherThread_run :: "outcome \<Rightarrow> orchestrator \<Rightarrow> orchestrator" where
  "WatcherThread_run target orc =
     (case target of
        Running \<Rightarrow> orc
      | Returned \<Rightarrow> orc\<lparr>fs_thread := (fs_thread orc)\<lparr>alive := False\<rparr>\<rparr>
      | Raised KeyboardInterrupt \<Rightarrow> orc\<lparr>fs_thread := (fs_thread orc)\<lparr>alive := False\<rparr>\<rparr>
      | Raised (Exception s) \<Rightarrow>
          orc\<lparr>fs_thread := (fs_thread orc)\<lparr>exception := Some (Exception s), alive := False\<rparr>,
            orch_logger := orch_logger orc @
              [(ERROR, ''Thread '' @ thread_name (fs_thread orc) @ '' crashed: '' @ s)]\<rparr>)"

definition crashed :: "watcher_thread \<Rightarrow> bool" where
  "crashed t = (exception t \<noteq> None)"

text \<open>The thread that \<^verbatim>\<open>main\<close> builds and starts, at its start and at each restart.\<close>

definition start_fs_thread :: "string \<Rightarrow> string \<Rightarrow> watcher_thread" where
  "start_fs_thread vp dp =
     \<lparr>thread_name = ''FileSystemWatcher'', args = (vp, dp, 10), exception = None, alive = True\<rparr>"

text \<open>
  One turn of the health monitor loop of \<^verbatim>\<open>main\<close>: \<^verbatim>\<open>time.sleep(30)\<close>, then the check.
  The clock counts seconds and a turn takes the time of its sleep. \<open>death\<close> tells
  whether, and how many seconds into the sleep, the target of the thread came to an end.
\<close>

definition supervision_interval :: nat where
  "supervision_interval = 30"

definition health_check :: "datetime \<Rightarrow> orchestrator \<Rightarrow> orchestrator" where
  "health_check now orc =
     (if \<not> alive (fs_thread orc)
      then orc\<lparr>orch_logger := orch_logger orc @
                [(WARNING, ''FileSystem watcher thread died '' @ em_dash @ '' restarting...'')],
             disk := orch_log_action now ''watcher_restart'' ''FileSystemWatcher restarted'' ''warning'' (disk orc),
             fs_thread := start_fs_thread (vault_path orc) (drop_path orc)\<rparr>
      else orc)"

definition monitor_turn :: "datetime \<Rightarrow> (nat \<times> outcome) option \<Rightarrow> orchestrator \<Rightarrow> orchestrator" where
  "monitor_turn now death orc =
     (let o1 = (case death of None \<Rightarrow> orc | Some (d, target) \<Rightarrow> WatcherThread_run target orc)
      in health_check now (o1\<lparr>clock := clock o1 + supervision_interval\<rparr>))"

fun monitor_loop :: "(datetime \<times> (nat \<times> outcome) option) list \<Rightarrow> orchestrator \<Rightarrow> orchestrator" where
  "monitor_loop [] orc = orc"
| "monitor_loop ((now, death) # turns) orc = monitor_loop turns (monitor_turn now death orc)"

subsection \<open>The dashboard\<close>

definition count_items :: "vault \<Rightarrow> string \<Rightarrow> nat" where
  "count_items v folder =
     (case dirs v folder of
        None \<Rightarrow> 0
      | Some es \<Rightarrow> length (filter (\<lambda>f. \<not> startswith (fst f) ''.'') es))"

definition folders :: "string list" where
  "folders = [''Inbox'', ''Needs_Action'', ''Pending_Approval'', ''Approved'', ''Plans'', ''Done'']"

definition folder_counts :: "vault \<Rightarrow> (string \<times> nat) list" where
  "folder_counts v = map (\<lambda>name. (name, count_items v name)) folders"

text \<open>\<^verbatim>\<open>lines[-5:]\<close>, and the entries among them that \<^verbatim>\<open>json.loads\<close> reads.\<close>

definition last5 :: "'a list \<Rightarrow> 'a list" where
  "last5 xs = drop (length xs - 5) xs"

fun loads :: "log_line \<Rightarrow> log_entry option" where
  "loads (Entry e) = Some e"
| "loads (Garbled s) = None"

definition recent_entries :: "datetime \<Rightarrow> vault \<Rightarrow> log_entry list" where
  "recent_entries now v = List.map_filter loads (last5 (logs v (strftime now ''%Y-%m-%d'')))"

definition activity_row :: "log_entry \<Rightarrow> string" where
  "activity_row e =
     ''| '' @ take 19 (timestamp e) @ '' | '' @ action_type e @ '' | '' @ details e @
     '' | '' @ result e @ '' |''"

definition recent_rows :: "log_entry list \<Rightarrow> string" where
  "recent_rows es =
     (let rows = join newline (map activity_row es)
      in if rows = [] then ''| '' @ em_dash @ '' | No activity yet | '' @ em_dash @ '' | '' @ em_dash @ '' |''
         else rows)"

definition count_row :: "string \<Rightarrow> nat \<Rightarrow> string" where
  "count_row label n = ''| '' @ label @ '' | '' @ str_nat n @ ''     |''"

definition count_of :: "(string \<times> nat) list \<Rightarrow> string \<Rightarrow> nat" where
  "count_of counts name = (case map_of counts name of None \<Rightarrow> 0 | Some n \<Rightarrow> n)"

definition status_row :: "string \<Rightarrow> string \<Rightarrow> string \<Rightarrow> string" where
  "status_row label status checked = ''| '' @ label @ '' | '' @ status @ '' | '' @ checked @ '' |''"

definition dashboard_lines :: "datetime \<Rightarrow> (string \<times> nat) list \<Rightarrow> log_entry list \<Rightarrow> string list" where
  "dashboard_lines now counts es =
     (let checked = strftime now ''%Y-%m-%d %H:%M:%S UTC''
      in
        [''---'',
         ''title: AI Employee Dashboard'',
         ''last_updated: '' @ isoformat now,
         ''version: '' @ dquote @ ''0.2'' @ dquote,
         ''tier: Silver'',
         ''---'',
         [],
         ''# AI Employee Dashboard'',
         [],
         ''## System Status'',
         ''| Component          | Status  | Last Check              |'',
         ''|--------------------|---------|-------------------------|'',
         status_row ''Orchestrator      '' ''Active '' checked,
         status_row ''File Watcher      '' ''Active '' checked,
         status_row ''Gmail Watcher     '' ''Active '' checked,
         status_row ''LinkedIn Poster   '' ''Active '' checked,
         status_row ''Vault Connection  '' ''Active '' checked,
         status_row ''AI Engine         '' ''Ready  '' checked,
         [],
         ''## Folder Summary'',
         ''| Folder            | Count |'',
         ''|-------------------|-------|'',
         count_row ''Inbox            '' (count_of counts ''Inbox''),
         count_row ''Needs_Action     '' (count_of counts ''Needs_Action''),
         count_row ''Pending_Approval '' (count_of counts ''Pending_Approval''),
         count_row ''Approved         '' (count_of counts ''Approved''),
         count_row ''Plans            '' (count_of counts ''Plans''),
         count_row ''Done             '' (count_of counts ''Done''),
         [],
         ''## Recent Activity'',
         ''| Timestamp           | Action | Details | Status |'',
         ''|---------------------|--------|---------|--------|'',
         recent_rows es,
         [],
         ''## Quick Links'',
         ''- [[Company_Handbook]] '' @ em_dash @ '' Rules of engagement'',
         ''- [[Plans/]] '' @ em_dash @ '' Active plans'',
         [],
         ''---'',
         ''*Updated by AI Employee v0.2 '' @ em_dash @ '' Silver Tier*''])"

definition dashboard_content :: "datetime \<Rightarrow> (string \<times> nat) list \<Rightarrow> log_entry list \<Rightarrow> string" where
  "dashboard_content now counts es = unlines (dashboard_lines now counts es)"

text \<open>\<^verbatim>\<open>_update_dashboard\<close>: \<^verbatim>\<open>write_text\<close> puts the whole new text in the place of the
  old \<^verbatim>\<open>Dashboard.md\<close>; the refresh then logs itself.\<close>

definition update_dashboard :: "datetime \<Rightarrow> orchestrator \<Rightarrow> orchestrator" where
  "update_dashboard now orc =
     (let v = disk orc;
          content = dashboard_content now (folder_counts v) (recent_entries now v);
          v1 = v\<lparr>dashboard := Some content\<rparr>
      in orc\<lparr>disk := orch_log_action now ''dashboard_update'' ''Dashboard.md refreshed'' ''success'' v1,
           orch_logger := orch_logger orc @ [(INFO, ''Dashboard updated'')]\<rparr>)"

text \<open>
  The state in which \<^verbatim>\<open>main\<close> enters its health monitor loop: the start is logged, the
  filesystem watcher thread is started, and the dashboard has been refreshed once. (The
  scheduler and its three jobs are not part of the model.)
\<close>

definition main_start :: "datetime \<Rightarrow> string \<Rightarrow> string \<Rightarrow> vault \<Rightarrow> orchestrator" where
  "main_start now vp dp v =
     update_dashboard now
       \<lparr>vault_path = vp, drop_path = dp,
        disk = orch_log_action now ''orchestrator_start'' ''Silver Tier orchestrator started'' ''success'' v,
        fs_thread = start_fs_thread vp dp,
        orch_logger = [(INFO, ''Scheduler started with Gmail, LinkedIn, and Dashboard jobs''),
                       (INFO, ''FileSystem watcher thread started'')],
        clock = 0\<rparr>"

section \<open>Concrete inputs\<close>

text \<open>The inputs at which the theorems below are instantiated and the code is run.\<close>

definition ex_now :: datetime where
  "ex_now =
     \<lparr>isoformat = ''2026-01-05T10:00:00+00:00'',
      strftime = (\<lambda>f. if f = ''%Y-%m-%d'' then ''2026-01-05''
                      else if f = ''%Y%m%d_%H%M%S'' then ''20260105_100000''
                      else ''2026-01-05 10:00:00 UTC'')\<rparr>"

definition ex_vault :: vault where
  "ex_vault =
     \<lparr>dirs = [''Needs_Action'' \<mapsto> [], ''Approved'' \<mapsto> [], ''Done'' \<mapsto> []],
      logs = (\<lambda>day. []),
      dashboard = None\<rparr>"

text \<open>Two unread messages whose ids agree on their first 16 characters; the first
  has been processed.\<close>

definition ex_message :: gmail_message where
  "ex_message = \<lparr>payload_headers = [(''Subject'', ''Offer'')], msg_snippet = ''hello'', threadId = ''t1''\<rparr>"

definition ex_api :: gmail_api where
  "ex_api =
     \<lparr>build_service = None,
      list_messages = (\<lambda>q n. Inr [''0123456789abcdef-A'', ''0123456789abcdef-B'']),
      get_message = (\<lambda>i. Inr ex_message),
      modify_message = (\<lambda>i. None)\<rparr>"

definition ex_api_down :: gmail_api where
  "ex_api_down = ex_api\<lparr>list_messages := (\<lambda>q n. Inl (Exception ''HttpError 503''))\<rparr>"

definition ex_gmail_watcher :: gmail_watcher where
  "ex_gmail_watcher =
     \<lparr>store = ex_vault, vault_dir = ''/vault'', class_name = ''GmailWatcher'', check_interval = 120,
      logger = [],
      processed_ids = {}, service = False\<rparr>"

definition ex_email :: email where
  "ex_email = email_data ''0123456789abcdef-A'' ex_message"

text \<open>A drop folder with one file, which the observer has queued.\<close>

definition ex_fs_watcher :: fs_watcher where
  "ex_fs_watcher =
     \<lparr>store = ex_vault, vault_dir = ''/vault'', class_name = ''FileSystemWatcher'', check_interval = 10,
      logger = [],
      drop_folder = [(''my report.txt'', ''abc'')],
      drop_dir = ''/vault/Drop_Folder'',
      pending_files = [''my report.txt''],
      processed_files = {}\<rparr>"

definition ex_human_size :: "nat \<Rightarrow> string" where
  "ex_human_size n = ''3.0 B''"

text \<open>An approved post, a poster whose \<^verbatim>\<open>Approved\<close> folder holds it, and four browsers:
  one that publishes, one whose Post button times out, one without Playwright, and one
  whose Chromium cannot be launched.\<close>

definition ex_post :: string where
  "ex_post =
     unlines
       [''---'',
        ''type: linkedin_post'',
        ''status: approved'',
        ''---'',
        [],
        ''## Post Content'',
        [],
        ''Hello'',
        [],
        ''## Notes'',
        ''none'']"

definition ex_empty_post :: string where
  "ex_empty_post =
     unlines
       [''---'',
        ''type: linkedin_post'',
        ''status: approved'',
        ''---'',
        [],
        ''## Post Content'',
        [],
        ''## Notes'',
        ''none'']"

definition ex_poster :: linkedin_poster where
  "ex_poster =
     \<lparr>store = ex_vault\<lparr>dirs := (dirs ex_vault)(''Approved'' \<mapsto> [(''LINKEDIN_a.md'', ex_post)])\<rparr>,
      vault_dir = ''/vault'', class_name = ''LinkedInPoster'', check_interval = 900, logger = [],
      linkedin_email = ''me@example.org'', linkedin_password = ''secret''\<rparr>"

definition ex_poster_empty :: linkedin_poster where
  "ex_poster_empty =
     ex_poster\<lparr>store := ex_vault\<lparr>dirs := (dirs ex_vault)(''Approved'' \<mapsto> [(''LINKEDIN_a.md'', ex_empty_post)])\<rparr>\<rparr>"

definition ex_browser :: browser where
  "ex_browser =
     \<lparr>playwright_installed = True, launch_raises = None, feed_raises = None, login_wall = False,
      login_raises = None, post_raises = None, screenshot_saved = True\<rparr>"

definition ex_browser_timeout :: browser where
  "ex_browser_timeout = ex_browser\<lparr>post_raises := Some (Exception ''Timeout 10000ms exceeded'')\<rparr>"

definition ex_browser_no_playwright :: browser where
  "ex_browser_no_playwright = ex_browser\<lparr>playwright_installed := False\<rparr>"

definition ex_browser_no_chromium :: browser where
  "ex_browser_no_chromium = ex_browser\<lparr>launch_raises := Some (Exception ''Executable does not exist'')\<rparr>"


definition ex_orchestrator :: orchestrator where
  "ex_orchestrator = main_start ex_now ''/vault'' ''/vault/Drop_Folder'' ex_vault"




section \<open>Properties\<close>

subsection \<open>The inbox watcher's detect\<close>

lemma fetch_messages_processed_ids:
  "processed_ids (snd (fetch_messages api stubs acc w)) = processed_ids w"
  by (induction api stubs acc w rule: fetch_messages.induct)
     (simp_all split: sum.splits exn.splits)

lemma fetch_messages_result:
  assumes "fetch_messages api stubs acc w = (Inr emails, w')"
  shows "\<exists>ids. emails = acc @ map (\<lambda>i. email_data i (projr (get_message api i))) ids
           \<and> set ids \<subseteq> set stubs - processed_ids w \<and> length ids \<le> length stubs"
  using assms
proof (induction api stubs acc w rule: fetch_messages.induct)
  case (1 api new_emails w)
  then show ?case by simp
next
  case (2 api i stubs new_emails w)
  show ?case
  proof (cases "i \<in> processed_ids w")
    case True
    with 2 obtain ids where "emails = new_emails @ map (\<lambda>i. email_data i (projr (get_message api i))) ids"
      "set ids \<subseteq> set stubs - processed_ids w" "length ids \<le> length stubs"
      by auto
    then show ?thesis by (intro exI [of _ ids]) auto
  next
    case False
    show ?thesis
    proof (cases "get_message api i")
      case (Inl e)
      show ?thesis
      proof (cases e)
        case KeyboardInterrupt
        with False Inl "2.prems" show ?thesis by simp
      next
        case (Exception s)
        with False Inl 2 obtain ids where
          "emails = new_emails @ map (\<lambda>i. email_data i (projr (get_message api i))) ids"
          "set ids \<subseteq> set stubs - processed_ids w" "length ids \<le> length stubs"
          by fastforce
        then show ?thesis by (intro exI [of _ ids]) auto
      qed
    next
      case (Inr msg)
      with False 2 obtain ids where
        "emails = (new_emails @ [email_data i msg]) @ map (\<lambda>i. email_data i (projr (get_message api i))) ids"
        "set ids \<subseteq> set stubs - processed_ids w" "length ids \<le> length stubs"
        by fastforce
      with Inr False show ?thesis by (intro exI [of _ "i # ids"]) auto
    qed
  qed
qed

lemma fetch_messages_returns:
  assumes "\<forall>i. get_message api i \<noteq> Inl KeyboardInterrupt"
  shows "\<exists>emails w'. fetch_messages api stubs acc w = (Inr emails, w')"
  using assms
proof (induction api stubs acc w rule: fetch_messages.induct)
  case (1 api new_emails w)
  then show ?case by simp
next
  case (2 api i stubs new_emails w)
  then show ?case
    by (cases "get_message api i") (auto split: exn.splits)
qed

text \<open>
  Claim C9. Provided the mail source honours the page size it is asked for
  (\<^verbatim>\<open>maxResults=20\<close>), every list that \<^verbatim>\<open>GmailWatcher.check_for_updates\<close> returns has at
  most 20 items and holds no message whose id is in \<^verbatim>\<open>processed_ids\<close>. The call returns
  a list whenever the service can be built and no call is interrupted from the keyboard.
\<close>

theorem inbox_detect_page_and_dedup:
  assumes page: "\<forall>ids. list_messages api ''is:unread is:important'' 20 = Inr ids \<longrightarrow> length ids \<le> 20"
  shows "(\<forall>emails w'. GmailWatcher_check_for_updates api w = (Inr emails, w') \<longrightarrow>
            length emails \<le> 20 \<and> (\<forall>e \<in> set emails. msg_id e \<notin> processed_ids w))
       \<and> ((service w \<or> build_service api = None)
            \<and> list_messages api ''is:unread is:important'' 20 \<noteq> Inl KeyboardInterrupt
            \<and> (\<forall>i. get_message api i \<noteq> Inl KeyboardInterrupt)
          \<longrightarrow> (\<exists>emails w'. GmailWatcher_check_for_updates api w = (Inr emails, w')))"
proof (intro conjI allI impI)
  fix emails w'
  assume run: "GmailWatcher_check_for_updates api w = (Inr emails, w')"
  show "length emails \<le> 20"
  proof (cases "ensure_service api w")
    case (Inl e)
    with run show ?thesis by (simp add: GmailWatcher_check_for_updates_def)
  next
    case (Inr w1)
    show ?thesis
    proof (cases "list_messages api ''is:unread is:important'' 20")
      case (Inl e)
      with run Inr show ?thesis
        by (cases e) (auto simp: GmailWatcher_check_for_updates_def)
    next
      case inr: (Inr messages)
      with run Inr have "fetch_messages api messages [] w1 = (Inr emails, w')"
        by (simp add: GmailWatcher_check_for_updates_def)
      from fetch_messages_result [OF this] obtain ids where
        "emails = map (\<lambda>i. email_data i (projr (get_message api i))) ids" "length ids \<le> length messages"
        by auto
      moreover from page inr have "length messages \<le> 20" by simp
      ultimately show ?thesis by simp
    qed
  qed
  show "\<forall>e \<in> set emails. msg_id e \<notin> processed_ids w"
  proof (cases "ensure_service api w")
    case (Inl e)
    with run show ?thesis by (simp add: GmailWatcher_check_for_updates_def)
  next
    case (Inr w1)
    then have same: "processed_ids w1 = processed_ids w"
      by (auto simp: ensure_service_def split: if_splits option.splits)
    show ?thesis
    proof (cases "list_messages api ''is:unread is:important'' 20")
      case (Inl e)
      with run Inr show ?thesis
        by (cases e) (auto simp: GmailWatcher_check_for_updates_def)
    next
      case inr: (Inr messages)
      with run Inr have "fetch_messages api messages [] w1 = (Inr emails, w')"
        by (simp add: GmailWatcher_check_for_updates_def)
      from fetch_messages_result [OF this] obtain ids where
        "emails = map (\<lambda>i. email_data i (projr (get_message api i))) ids"
        "set ids \<subseteq> set messages - processed_ids w1"
        by auto
      with same show ?thesis by (auto simp: email_data_def)
    qed
  qed
next
  assume ok: "(service w \<or> build_service api = None)
            \<and> list_messages api ''is:unread is:important'' 20 \<noteq> Inl KeyboardInterrupt
            \<and> (\<forall>i. get_message api i \<noteq> Inl KeyboardInterrupt)"
  then obtain w1 where w1: "ensure_service api w = Inr w1"
    by (cases "service w") (auto simp: ensure_service_def)
  show "\<exists>emails w'. GmailWatcher_check_for_updates api w = (Inr emails, w')"
  proof (cases "list_messages api ''is:unread is:important'' 20")
    case (Inl e)
    with ok w1 show ?thesis
      by (cases e) (auto simp: GmailWatcher_check_for_updates_def)
  next
    case (Inr messages)
    from ok fetch_messages_returns [of api messages "[]" w1]
    obtain emails w' where "fetch_messages api messages [] w1 = (Inr emails, w')" by blast
    with w1 Inr show ?thesis by (simp add: GmailWatcher_check_for_updates_def)
  qed
qed

theorem inbox_detect_page_and_dedup_witness:
  "list_messages ex_api ''is:unread is:important'' 20 = Inr [''0123456789abcdef-A'', ''0123456789abcdef-B'']
   \<and> (\<exists>emails w'.
         GmailWatcher_check_for_updates ex_api (ex_gmail_watcher\<lparr>processed_ids := {''0123456789abcdef-A''}\<rparr>)
           = (Inr emails, w')
         \<and> map msg_id emails = [''0123456789abcdef-B'']
         \<and> length emails \<le> 20)"
  using inbox_detect_page_and_dedup [of ex_api "ex_gmail_watcher\<lparr>processed_ids := {''0123456789abcdef-A''}\<rparr>"]
  by (simp add: ex_api_def ex_gmail_watcher_def GmailWatcher_check_for_updates_def ensure_service_def
        email_data_def)

text \<open>
  Claim C4, as the code has it. When the service is at hand and the list call raises an
  ordinary exception, \<^verbatim>\<open>GmailWatcher.check_for_updates\<close> returns the empty list instead of
  raising, and leaves the vault, the audit log and \<^verbatim>\<open>processed_ids\<close> as they were. What it
  emits is one record on the watcher's logger, at level \<^verbatim>\<open>ERROR\<close>.
\<close>

theorem inbox_detect_list_failure:
  assumes "service w \<or> build_service api = None"
    and "list_messages api ''is:unread is:important'' 20 = Inl (Exception s)"
  shows "fst (GmailWatcher_check_for_updates api w) = Inr []
       \<and> logger (snd (GmailWatcher_check_for_updates api w))
           = logger w @ [(ERROR, ''Gmail API list failed: '' @ s)]
       \<and> store (snd (GmailWatcher_check_for_updates api w)) = store w
       \<and> processed_ids (snd (GmailWatcher_check_for_updates api w)) = processed_ids w"
  using assms
  by (cases "service w")
     (auto simp: GmailWatcher_check_for_updates_def ensure_service_def)

theorem inbox_detect_list_failure_witness:
  "build_service ex_api_down = None
   \<and> list_messages ex_api_down ''is:unread is:important'' 20 = Inl (Exception ''HttpError 503'')
   \<and> fst (GmailWatcher_check_for_updates ex_api_down ex_gmail_watcher) = Inr []
   \<and> logger (snd (GmailWatcher_check_for_updates ex_api_down ex_gmail_watcher))
        = [(ERROR, ''Gmail API list failed: HttpError 503'')]"
  using inbox_detect_list_failure [of ex_gmail_watcher ex_api_down "''HttpError 503''"]
  by (simp add: ex_api_down_def ex_api_def ex_gmail_watcher_def)

text \<open>
  The claim as stated fails: on a failed list call nothing is emitted at level
  \<^verbatim>\<open>WARNING\<close>, and the audit log of the day stays empty; the caller receives the empty
  list and nothing else.
\<close>

theorem inbox_detect_list_failure_counterexample:
  "fst (GmailWatcher_check_for_updates ex_api_down ex_gmail_watcher) = Inr []
   \<and> map fst (logger (snd (GmailWatcher_check_for_updates ex_api_down ex_gmail_watcher))) = [ERROR]
   \<and> WARNING \<notin> set (map fst (logger (snd (GmailWatcher_check_for_updates ex_api_down ex_gmail_watcher))))
   \<and> logs (store (snd (GmailWatcher_check_for_updates ex_api_down ex_gmail_watcher))) ''2026-01-05'' = []"
  by (simp add: GmailWatcher_check_for_updates_def ensure_service_def ex_api_down_def ex_api_def
        ex_gmail_watcher_def ex_vault_def)

subsection \<open>The Dedup Tracker\<close>

lemma drain_filter:
  "drain pending processed d acc = acc @ filter (\<lambda>p. p \<notin> processed \<and> path_exists d p) pending"
  by (induction pending arbitrary: acc) auto





subsection \<open>Detect after detect, detect after materialize\<close>

lemma fetch_messages_tracker_only:
  assumes "processed_ids w = processed_ids w'"
  shows "fst (fetch_messages api stubs acc w) = fst (fetch_messages api stubs acc w')"
  using assms
proof (induction api stubs acc w arbitrary: w' rule: fetch_messages.induct)
  case (1 api new_emails w)
  then show ?case by simp
next
  case (2 api i stubs new_emails w)
  show ?case
  proof (cases "i \<in> processed_ids w")
    case True
    with 2 show ?thesis by simp
  next
    case False
    show ?thesis
    proof (cases "get_message api i")
      case (Inl e)
      show ?thesis
      proof (cases e)
        case KeyboardInterrupt
        with False Inl "2.prems" show ?thesis by simp
      next
        case (Exception s)
        have "fst (fetch_messages api stubs new_emails
                 (w\<lparr>logger := logger w @ [(ERROR, ''Failed to fetch message '' @ i @ '': '' @ s)]\<rparr>))
            = fst (fetch_messages api stubs new_emails
                 (w'\<lparr>logger := logger w' @ [(ERROR, ''Failed to fetch message '' @ i @ '': '' @ s)]\<rparr>))"
          using False Inl Exception "2.prems" by (intro "2.IH"(2)) auto
        with False Inl Exception "2.prems" show ?thesis by simp
      qed
    next
      case (Inr msg)
      with False 2 show ?thesis by simp
    qed
  qed
qed

lemma fetch_messages_service:
  "service (snd (fetch_messages api stubs acc w)) = service w"
  by (induction api stubs acc w rule: fetch_messages.induct)
     (simp_all split: sum.splits exn.splits)

lemma gmail_detect_twice:
  "fst (GmailWatcher_check_for_updates api (snd (GmailWatcher_check_for_updates api w)))
     = fst (GmailWatcher_check_for_updates api w)"
proof (cases "service w \<or> build_service api = None")
  case False
  then have "GmailWatcher_check_for_updates api w = (Inl (the (build_service api)), w)"
    by (auto simp: GmailWatcher_check_for_updates_def ensure_service_def)
  then show ?thesis by simp
next
  case True
  define w1 where "w1 = (if service w then w else w\<lparr>service := True\<rparr>)"
  have es: "ensure_service api w = Inr w1"
    using True by (auto simp: ensure_service_def w1_def)
  have w1: "service w1" "processed_ids w1 = processed_ids w"
    by (auto simp: w1_def)
  show ?thesis
  proof (cases "list_messages api ''is:unread is:important'' 20")
    case (Inl e)
    with es w1 show ?thesis
      by (cases e) (auto simp: GmailWatcher_check_for_updates_def ensure_service_def)
  next
    case (Inr ids)
    define w2 where "w2 = snd (fetch_messages api ids [] w1)"
    have first: "GmailWatcher_check_for_updates api w = fetch_messages api ids [] w1"
      using es Inr by (simp add: GmailWatcher_check_for_updates_def)
    have w2: "service w2" "processed_ids w2 = processed_ids w1"
      using w1 by (simp_all add: w2_def fetch_messages_service fetch_messages_processed_ids)
    then have "GmailWatcher_check_for_updates api w2 = fetch_messages api ids [] w2"
      using Inr by (simp add: GmailWatcher_check_for_updates_def ensure_service_def)
    moreover have "fst (fetch_messages api ids [] w2) = fst (fetch_messages api ids [] w1)"
      using w2 by (intro fetch_messages_tracker_only) simp
    ultimately show ?thesis using first by (simp add: w2_def)
  qed
qed

lemma on_created_processed_files:
  "processed_files (fold on_created events w) = processed_files w"
  by (induction events arbitrary: w) (auto simp: on_created_def)

lemma on_created_drop_folder:
  "drop_folder (fold on_created events w) = drop_folder w"
  by (induction events arbitrary: w) (auto simp: on_created_def)

lemma emit_fields:
  "store (emit lvl msg w) = store w" "logger (emit lvl msg w) = logger w @ [(lvl, msg)]"
  by (simp_all add: emit_def)

lemma log_action_fields:
  "dirs (store (log_action now a d r w)) = dirs (store w)"
  "dashboard (store (log_action now a d r w)) = dashboard (store w)"
  "logs (store (log_action now a d r w)) (strftime now ''%Y-%m-%d'')
     = logs (store w) (strftime now ''%Y-%m-%d'')
       @ [Entry \<lparr>timestamp = isoformat now, action_type = a, actor = class_name w, details = d, result = r\<rparr>]"
  "logger (log_action now a d r w) = logger w @ [(INFO, ''['' @ a @ ''] '' @ d @ '' -> '' @ r)]"
  by (simp_all add: log_action_def append_log_def Let_def)

lemma login_store: "store (snd (login b w)) = store w"
  by (auto simp: login_def emit_fields split: option.splits exn.splits)

lemma post_session_store: "store (snd (post_session b i w)) = store w"
proof -
  have "store (snd (login b (emit INFO ''Not logged in, attempting login...'' w))) = store w"
    by (simp add: login_store emit_fields)
  then show ?thesis
    by (cases "login b (emit INFO ''Not logged in, attempting login...'' w)")
       (auto simp: post_session_def emit_fields split: option.splits sum.splits bool.splits)
qed

lemma post_to_linkedin_store: "store (snd (post_to_linkedin b t i w)) = store w"
proof -
  have "store (snd (post_session b i (emit INFO (''Launching browser for LinkedIn post: '' @ i) w))) = store w"
    by (simp add: post_session_store emit_fields)
  then show ?thesis
    by (cases "post_session b i (emit INFO (''Launching browser for LinkedIn post: '' @ i) w)")
       (auto simp: post_to_linkedin_def emit_fields Let_def split: option.splits sum.splits exn.splits)
qed

lemma move_file_result:
  assumes "move_file ''Approved'' sn ''Done'' dn v = Inr v'"
  shows "\<exists>ses txt des. dirs v ''Approved'' = Some ses \<and> map_of ses sn = Some txt
           \<and> dirs v ''Done'' = Some des
           \<and> dirs v' = (dirs v)(''Approved'' \<mapsto> AList.delete sn ses, ''Done'' \<mapsto> AList.update dn txt des)
           \<and> logs v' = logs v \<and> dashboard v' = dashboard v"
  using assms
  by (auto simp: move_file_def Let_def split: option.splits)

lemma archive_result:
  assumes "archive now item status w = (Inr u, w1)"
  shows "\<exists>ses txt des. dirs (store w) ''Approved'' = Some ses \<and> map_of ses item = Some txt
           \<and> dirs (store w) ''Done'' = Some des
           \<and> dirs (store w1) = (dirs (store w))(''Approved'' \<mapsto> AList.delete item ses,
                 ''Done'' \<mapsto> AList.update (archive_name now item status) txt des)
           \<and> logs (store w1) = logs (store w)
           \<and> logger w1 = logger w @ [(INFO, ''Archived '' @ item @ '' -> '' @ archive_name now item status)]
           \<and> class_name w1 = class_name w"
proof (cases "move_file ''Approved'' item ''Done'' (archive_name now item status) (store w)")
  case (Inl e)
  with assms show ?thesis by (simp add: archive_def)
next
  case (Inr v)
  from move_file_result [OF Inr] Inr assms show ?thesis
    by (auto simp: archive_def emit_def)
qed

lemma archive_returns:
  assumes "dirs (store w) ''Approved'' = Some ses" "map_of ses item = Some txt" "dirs (store w) ''Done'' = Some des"
  shows "\<exists>w1. archive now item status w = (Inr (), w1)"
  using assms by (simp add: archive_def move_file_def Let_def)

lemma not_pending_when_gone:
  assumes "dirs v ''Approved'' = Some (AList.delete item ses)"
  shows "\<not> is_pending_post v item"
  using assms by (simp add: is_pending_post_def read_text_def delete_conv')

lemma archive_and_log_result:
  assumes "archive_and_log now item status det res w = (Inr r, w')"
  shows "\<exists>ses txt des. dirs (store w) ''Approved'' = Some ses \<and> map_of ses item = Some txt
           \<and> dirs (store w) ''Done'' = Some des
           \<and> dirs (store w') = (dirs (store w))(''Approved'' \<mapsto> AList.delete item ses,
                 ''Done'' \<mapsto> AList.update (archive_name now item status) txt des)
           \<and> logs (store w') (strftime now ''%Y-%m-%d'')
               = logs (store w) (strftime now ''%Y-%m-%d'')
                 @ [Entry \<lparr>timestamp = isoformat now, action_type = ''linkedin_post'',
                           actor = class_name w, details = det @ item, result = res\<rparr>]
           \<and> r = item"
proof (cases "archive now item status w")
  case (Pair a w1)
  show ?thesis
  proof (cases a)
    case (Inl e)
    with Pair assms show ?thesis by (simp add: archive_and_log_def)
  next
    case (Inr u)
    with Pair have "archive now item status w = (Inr u, w1)" by simp
    from archive_result [OF this] Pair Inr assms show ?thesis
      by (auto simp: archive_and_log_def log_action_fields)
  qed
qed

lemma create_action_file_archives:
  assumes "LinkedInPoster_create_action_file now b item w = (Inr r, w')"
  shows "\<exists>ses. dirs (store w') ''Approved'' = Some (AList.delete item ses)"
proof (cases "read_text ''Approved'' item (store w)")
  case (Inl e)
  with assms show ?thesis by (simp add: LinkedInPoster_create_action_file_def)
next
  case (Inr content)
  show ?thesis
  proof (cases "extract_post_body content = []")
    case True
    define w0 where "w0 = emit WARNING (''No post body found in '' @ item @ '', skipping.'') w"
    obtain a w1 where a: "archive now item ''skipped_empty_body'' w0 = (a, w1)"
      by (cases "archive now item ''skipped_empty_body'' w0")
    with assms Inr True obtain u where "a = Inr u" "w' = w1"
      by (cases a) (auto simp: LinkedInPoster_create_action_file_def w0_def)
    with a archive_result [of now item "''skipped_empty_body''" w0 u w1] show ?thesis
      by auto
  next
    case False
    obtain p w1 where p: "post_to_linkedin b (extract_post_body content) (path_stem item) w = (p, w1)"
      by (cases "post_to_linkedin b (extract_post_body content) (path_stem item) w")
    show ?thesis
    proof (cases p)
      case (Inl e)
      with assms Inr False p show ?thesis by (simp add: LinkedInPoster_create_action_file_def)
    next
      case ok: (Inr success)
      show ?thesis
      proof (cases success)
        case True
        with assms Inr False p ok
        have "archive_and_log now item ''posted'' ''Posted: '' ''success'' w1 = (Inr r, w')"
          by (simp add: LinkedInPoster_create_action_file_def)
        from archive_and_log_result [OF this] show ?thesis by auto
      next
        case no: False
        with assms Inr False p ok
        have "archive_and_log now item ''post_failed'' ''Failed: '' ''error'' w1 = (Inr r, w')"
          by (simp add: LinkedInPoster_create_action_file_def)
        from archive_and_log_result [OF this] show ?thesis by auto
      qed
    qed
  qed
qed

lemma archived_not_detected:
  assumes "LinkedInPoster_create_action_file now b item w = (Inr r, w')"
  shows "item \<notin> set (LinkedInPoster_check_for_updates w')"
proof -
  from create_action_file_archives [OF assms] obtain ses where
    "dirs (store w') ''Approved'' = Some (AList.delete item ses)" by blast
  then have "\<not> is_pending_post (store w') item" by (rule not_pending_when_gone)
  then show ?thesis by (simp add: LinkedInPoster_check_for_updates_def)
qed

text \<open>
  Claim C2, as the code has it. The inbox watcher's detect, called twice in a row on the
  same source, gives the same result. The drop-folder watcher's detect empties its queue,
  so a second call returns nothing. For all three watchers, once materialize has
  succeeded for an event, a later detect does not return its natural key: not on any
  later answer of the mail source, not when the observer delivers the file again, and not
  from the \<^verbatim>\<open>Approved\<close> folder.
\<close>

theorem detect_and_materialize:
  "fst (GmailWatcher_check_for_updates api (snd (GmailWatcher_check_for_updates api w)))
     = fst (GmailWatcher_check_for_updates api w)
   \<and> fst (FileSystemWatcher_check_for_updates (snd (FileSystemWatcher_check_for_updates fw))) = []
   \<and> (\<forall>name w' api' emails w''.
        GmailWatcher_create_action_file now api item w = (Inr name, w')
        \<and> GmailWatcher_check_for_updates api' w' = (Inr emails, w'')
        \<longrightarrow> msg_id item \<notin> set (map msg_id emails))
   \<and> (\<forall>name fw' events.
        FileSystemWatcher_create_action_file now human_size f fw = (Inr name, fw')
        \<longrightarrow> f \<notin> set (fst (FileSystemWatcher_check_for_updates (fold on_created events fw'))))
   \<and> (\<forall>r pw'.
        LinkedInPoster_create_action_file now b p pw = (Inr r, pw')
        \<longrightarrow> p \<notin> set (LinkedInPoster_check_for_updates pw'))"
proof (intro conjI allI impI)
  show "fst (GmailWatcher_check_for_updates api (snd (GmailWatcher_check_for_updates api w)))
     = fst (GmailWatcher_check_for_updates api w)"
    by (rule gmail_detect_twice)
  show "fst (FileSystemWatcher_check_for_updates (snd (FileSystemWatcher_check_for_updates fw))) = []"
    by (simp add: FileSystemWatcher_check_for_updates_def)
next
  fix name w' api' emails w''
  assume a: "GmailWatcher_create_action_file now api item w = (Inr name, w')
        \<and> GmailWatcher_check_for_updates api' w' = (Inr emails, w'')"
  then obtain v where v: "write_text ''Needs_Action'' (email_file_name now item)
      (email_content now item (take 16 (msg_id item))) (store w) = Inr v"
    by (cases "write_text ''Needs_Action'' (email_file_name now item)
      (email_content now item (take 16 (msg_id item))) (store w)")
       (auto simp: GmailWatcher_create_action_file_def Let_def)
  obtain r w1 where m: "mark_as_read api (msg_id item) (w\<lparr>store := v\<rparr>) = (r, w1)"
    by (cases "mark_as_read api (msg_id item) (w\<lparr>store := v\<rparr>)")
  from a v m have tracked: "msg_id item \<in> processed_ids w'"
    by (cases r) (auto simp: GmailWatcher_create_action_file_def Let_def)
  show "msg_id item \<notin> set (map msg_id emails)"
  proof (cases "ensure_service api' w'")
    case (Inl e)
    with a show ?thesis by (simp add: GmailWatcher_check_for_updates_def)
  next
    case (Inr w2)
    then have same: "processed_ids w2 = processed_ids w'"
      by (auto simp: ensure_service_def split: if_splits option.splits)
    show ?thesis
    proof (cases "list_messages api' ''is:unread is:important'' 20")
      case (Inl e)
      with a Inr show ?thesis
        by (cases e) (auto simp: GmailWatcher_check_for_updates_def)
    next
      case inr: (Inr ids)
      with a Inr have "fetch_messages api' ids [] w2 = (Inr emails, w'')"
        by (simp add: GmailWatcher_check_for_updates_def)
      from fetch_messages_result [OF this] obtain js where
        "emails = map (\<lambda>i. email_data i (projr (get_message api' i))) js"
        "set js \<subseteq> set ids - processed_ids w2"
        by auto
      with same tracked show ?thesis by (auto simp: email_data_def)
    qed
  qed
next
  fix name fw' events
  assume run: "FileSystemWatcher_create_action_file now human_size f fw = (Inr name, fw')"
  then have "f \<in> processed_files fw'"
    by (auto simp: FileSystemWatcher_create_action_file_def Let_def split: option.splits sum.splits)
  then show "f \<notin> set (fst (FileSystemWatcher_check_for_updates (fold on_created events fw')))"
    by (simp add: FileSystemWatcher_check_for_updates_def drain_filter on_created_processed_files)
next
  fix r pw'
  assume "LinkedInPoster_create_action_file now b p pw = (Inr r, pw')"
  then show "p \<notin> set (LinkedInPoster_check_for_updates pw')"
    by (rule archived_not_detected)
qed


lemma ex_post_body: "extract_post_body ex_post = ''Hello''"
  by code_simp

lemma ex_empty_post_body: "extract_post_body ex_empty_post = []"
  by code_simp

lemma ex_stem: "path_stem ''LINKEDIN_a.md'' = ''LINKEDIN_a''"
  by code_simp

theorem detect_and_materialize_witness:
  "fst (GmailWatcher_create_action_file ex_now ex_api ex_email ex_gmail_watcher)
     = Inr ''EMAIL_0123456789abcdef_20260105_100000.md''
   \<and> map msg_id (projr (fst (GmailWatcher_check_for_updates ex_api
          (snd (GmailWatcher_create_action_file ex_now ex_api ex_email ex_gmail_watcher)))))
        = [''0123456789abcdef-B'']
   \<and> fst (FileSystemWatcher_create_action_file ex_now ex_human_size ''my report.txt'' ex_fs_watcher)
        = Inr ''FILE_my_report_20260105_100000.md''
   \<and> fst (FileSystemWatcher_check_for_updates
          (fold on_created [\<lparr>is_directory = False, src_name = ''my report.txt''\<rparr>]
             (snd (FileSystemWatcher_create_action_file ex_now ex_human_size ''my report.txt'' ex_fs_watcher))))
        = []
   \<and> fst (LinkedInPoster_create_action_file ex_now ex_browser ''LINKEDIN_a.md'' ex_poster)
        = Inr ''LINKEDIN_a.md''
   \<and> LinkedInPoster_check_for_updates
         (snd (LinkedInPoster_create_action_file ex_now ex_browser ''LINKEDIN_a.md'' ex_poster)) = []"
  using detect_and_materialize [of ex_api ex_gmail_watcher ex_fs_watcher ex_now ex_email ex_human_size
          "''my report.txt''" ex_browser "''LINKEDIN_a.md''" ex_poster]
  by (simp add: ex_gmail_watcher_def ex_fs_watcher_def ex_vault_def ex_api_def ex_email_def ex_now_def
        ex_message_def email_data_def header_get_def
        GmailWatcher_create_action_file_def email_file_name_def write_text_def mark_as_read_def
        ensure_service_def GmailWatcher_check_for_updates_def
        FileSystemWatcher_create_action_file_def file_id_of_def path_exists_def path_stem_def
        path_suffix_def has_suffix_def after_last_dot_def replace_char_def Let_def
        FileSystemWatcher_check_for_updates_def on_created_def startswith_def
        ex_poster_def ex_browser_def LinkedInPoster_create_action_file_def read_text_def ex_post_body
        post_to_linkedin_def post_session_def emit_def archive_and_log_def archive_def move_file_def
        archive_name_def log_action_def append_log_def LinkedInPoster_check_for_updates_def
        glob_linkedin_def)

text \<open>
  The claim as stated fails for the drop-folder watcher: with one file queued and no
  materialize in between, the first detect returns the file and the second returns
  nothing.
\<close>

theorem detect_twice_counterexample:
  "fst (FileSystemWatcher_check_for_updates ex_fs_watcher) = [''my report.txt'']
   \<and> fst (FileSystemWatcher_check_for_updates (snd (FileSystemWatcher_check_for_updates ex_fs_watcher))) = []
   \<and> processed_files (snd (FileSystemWatcher_check_for_updates ex_fs_watcher)) = {}
   \<and> drop_folder (snd (FileSystemWatcher_check_for_updates ex_fs_watcher)) = drop_folder ex_fs_watcher"
  by (simp add: FileSystemWatcher_check_for_updates_def ex_fs_watcher_def path_exists_def)

subsection \<open>The approval workflow\<close>

text \<open>
  Claim C10. An approved record whose extracted post body is empty is moved to
  \<^verbatim>\<open>Done\<close> under a name that carries \<^verbatim>\<open>skipped_empty_body\<close>, with a warning on the logger.
  The browser is not consulted (the call does the same for every browser) and no LogEntry
  is written.
\<close>

theorem empty_body_is_skipped:
  assumes "dirs (store w) ''Approved'' = Some ses"
    and "map_of ses item = Some content"
    and "extract_post_body content = []"
    and "dirs (store w) ''Done'' = Some des"
  shows "\<exists>w'. LinkedInPoster_create_action_file now b item w = (Inr item, w')
       \<and> dirs (store w') = (dirs (store w))
             (''Approved'' \<mapsto> AList.delete item ses,
              ''Done'' \<mapsto> AList.update
                  (path_stem item @ ''_skipped_empty_body_'' @ strftime now ''%Y%m%d_%H%M%S'' @ ''.md'')
                  content des)
       \<and> logs (store w') = logs (store w)
       \<and> logger w' = logger w @
             [(WARNING, ''No post body found in '' @ item @ '', skipping.''),
              (INFO, ''Archived '' @ item @ '' -> '' @ archive_name now item ''skipped_empty_body'')]
       \<and> (\<forall>b'. LinkedInPoster_create_action_file now b' item w
                  = LinkedInPoster_create_action_file now b item w)"
proof -
  define w0 where "w0 = emit WARNING (''No post body found in '' @ item @ '', skipping.'') w"
  have rd: "read_text ''Approved'' item (store w) = Inr content"
    using assms by (simp add: read_text_def)
  have st: "store w0 = store w" by (simp add: w0_def emit_fields)
  with assms archive_returns [of w0 ses item content des now "''skipped_empty_body''"]
  obtain w1 where a: "archive now item ''skipped_empty_body'' w0 = (Inr (), w1)" by auto
  have run: "\<And>b'. LinkedInPoster_create_action_file now b' item w = (Inr item, w1)"
    using rd assms(3) a by (simp add: LinkedInPoster_create_action_file_def w0_def)
  from archive_result [OF a] st assms have
    "dirs (store w1) = (dirs (store w))
             (''Approved'' \<mapsto> AList.delete item ses,
              ''Done'' \<mapsto> AList.update (archive_name now item ''skipped_empty_body'') content des)"
    "logs (store w1) = logs (store w)"
    "logger w1 = logger w0 @ [(INFO, ''Archived '' @ item @ '' -> '' @ archive_name now item ''skipped_empty_body'')]"
    by auto
  with run show ?thesis
    by (simp add: archive_name_def w0_def emit_fields)
qed

theorem empty_body_is_skipped_witness:
  "dirs (store ex_poster_empty) ''Approved'' = Some [(''LINKEDIN_a.md'', ex_empty_post)]
   \<and> map_of [(''LINKEDIN_a.md'', ex_empty_post)] ''LINKEDIN_a.md'' = Some ex_empty_post
   \<and> extract_post_body ex_empty_post = []
   \<and> dirs (store ex_poster_empty) ''Done'' = Some []
   \<and> fst (LinkedInPoster_create_action_file ex_now ex_browser ''LINKEDIN_a.md'' ex_poster_empty)
        = Inr ''LINKEDIN_a.md''
   \<and> dirs (store (snd (LinkedInPoster_create_action_file ex_now ex_browser ''LINKEDIN_a.md'' ex_poster_empty)))
        ''Approved'' = Some []
   \<and> dirs (store (snd (LinkedInPoster_create_action_file ex_now ex_browser ''LINKEDIN_a.md'' ex_poster_empty)))
        ''Done'' = Some [(''LINKEDIN_a_skipped_empty_body_20260105_100000.md'', ex_empty_post)]
   \<and> logs (store (snd (LinkedInPoster_create_action_file ex_now ex_browser ''LINKEDIN_a.md'' ex_poster_empty)))
        ''2026-01-05'' = []"
  using empty_body_is_skipped [of ex_poster_empty "[(''LINKEDIN_a.md'', ex_empty_post)]" "''LINKEDIN_a.md''"
          ex_empty_post "[]" ex_now ex_browser]
  by (auto simp: ex_poster_empty_def ex_poster_def ex_vault_def ex_empty_post_body ex_stem ex_now_def)

text \<open>
  When \<^verbatim>\<open>_post_to_linkedin\<close> reports failure (it returns \<^verbatim>\<open>False\<close>), the record is moved
  to \<^verbatim>\<open>Done\<close> under a name that carries \<^verbatim>\<open>post_failed\<close>, a LogEntry with
  \<^verbatim>\<open>result = error\<close> is appended, and a later detect does not return the record.
\<close>

lemma reported_failure_is_archived:
  assumes "dirs (store w) ''Approved'' = Some ses"
    and "map_of ses item = Some content"
    and "extract_post_body content \<noteq> []"
    and "dirs (store w) ''Done'' = Some des"
    and "fst (post_to_linkedin b (extract_post_body content) (path_stem item) w) = Inr False"
  shows "\<exists>w'. LinkedInPoster_create_action_file now b item w = (Inr item, w')
       \<and> dirs (store w') = (dirs (store w))
             (''Approved'' \<mapsto> AList.delete item ses,
              ''Done'' \<mapsto> AList.update
                  (path_stem item @ ''_post_failed_'' @ strftime now ''%Y%m%d_%H%M%S'' @ ''.md'')
                  content des)
       \<and> logs (store w') (strftime now ''%Y-%m-%d'')
           = logs (store w) (strftime now ''%Y-%m-%d'')
             @ [Entry \<lparr>timestamp = isoformat now, action_type = ''linkedin_post'',
                       actor = class_name w, details = ''Failed: '' @ item, result = ''error''\<rparr>]
       \<and> item \<notin> set (LinkedInPoster_check_for_updates w')"
proof -
  obtain w1 where p: "post_to_linkedin b (extract_post_body content) (path_stem item) w = (Inr False, w1)"
    using assms(5) by (cases "post_to_linkedin b (extract_post_body content) (path_stem item) w") auto
  have st: "store w1 = store w"
    using post_to_linkedin_store [of b "extract_post_body content" "path_stem item" w] p by simp
  have cn: "class_name w1 = class_name w"
    using p
    by (auto simp: post_to_linkedin_def post_session_def login_def emit_def Let_def
          split: if_splits option.splits sum.splits exn.splits bool.splits prod.splits)
  have rd: "read_text ''Approved'' item (store w) = Inr content"
    using assms by (simp add: read_text_def)
  from st assms archive_returns [of w1 ses item content des now "''post_failed''"]
  obtain w2 where a: "archive now item ''post_failed'' w1 = (Inr (), w2)" by auto
  define w' where "w' = log_action now ''linkedin_post'' (''Failed: '' @ item) ''error'' w2"
  have run: "LinkedInPoster_create_action_file now b item w = (Inr item, w')"
    using rd assms(3) p a by (simp add: LinkedInPoster_create_action_file_def archive_and_log_def w'_def)
  from archive_result [OF a] st cn assms have
    "dirs (store w2) = (dirs (store w))
             (''Approved'' \<mapsto> AList.delete item ses,
              ''Done'' \<mapsto> AList.update (archive_name now item ''post_failed'') content des)"
    "logs (store w2) = logs (store w)" "class_name w2 = class_name w"
    by auto
  then have "dirs (store w') = (dirs (store w))
             (''Approved'' \<mapsto> AList.delete item ses,
              ''Done'' \<mapsto> AList.update
                  (path_stem item @ ''_post_failed_'' @ strftime now ''%Y%m%d_%H%M%S'' @ ''.md'')
                  content des)"
    and "logs (store w') (strftime now ''%Y-%m-%d'')
           = logs (store w) (strftime now ''%Y-%m-%d'')
             @ [Entry \<lparr>timestamp = isoformat now, action_type = ''linkedin_post'',
                       actor = class_name w, details = ''Failed: '' @ item, result = ''error''\<rparr>]"
    by (simp_all add: w'_def log_action_fields archive_name_def)
  moreover from run have "item \<notin> set (LinkedInPoster_check_for_updates w')"
    by (rule archived_not_detected)
  ultimately show ?thesis using run by blast
qed

subsection \<open>The status artifact\<close>















subsection \<open>Supervision\<close>

lemma monitor_turn_keeps_thread:
  assumes "fs_thread orc = start_fs_thread (vault_path orc) (drop_path orc)"
  shows "fs_thread (monitor_turn now death orc) = start_fs_thread (vault_path orc) (drop_path orc)
       \<and> vault_path (monitor_turn now death orc) = vault_path orc
       \<and> drop_path (monitor_turn now death orc) = drop_path orc"
  using assms
  by (auto simp: monitor_turn_def health_check_def WatcherThread_run_def start_fs_thread_def Let_def
        split: option.splits outcome.splits exn.splits)

lemma monitor_loop_keeps_thread:
  assumes "fs_thread orc = start_fs_thread (vault_path orc) (drop_path orc)"
  shows "fs_thread (monitor_loop turns orc) = start_fs_thread (vault_path orc) (drop_path orc)"
  using assms
proof (induction turns arbitrary: orc)
  case Nil
  then show ?case by simp
next
  case (Cons t turns)
  obtain now death where t: "t = (now, death)" by (cases t)
  from monitor_turn_keeps_thread [OF Cons.prems, of now death] Cons.IH [of "monitor_turn now death orc"]
  show ?case by (simp add: t)
qed

lemma main_start_fields:
  "fs_thread (main_start now vp dp v) = start_fs_thread vp dp"
  "vault_path (main_start now vp dp v) = vp"
  "drop_path (main_start now vp dp v) = dp"
  by (simp_all add: main_start_def update_dashboard_def Let_def)

text \<open>
  Claim C7. A turn of the health monitor loop lasts the 30 seconds of its sleep. When the
  target of the filesystem watcher thread comes to an end during that sleep (it returns
  or raises), the turn finds the thread dead, appends a LogEntry with
  \<^verbatim>\<open>result = warning\<close> and starts a new thread with the vault path, the drop folder and
  the interval 10 that \<^verbatim>\<open>main\<close> gave the first one; this happens at most 30 seconds after
  the end of the target. After any number of turns the thread is one started with that
  configuration.
\<close>

theorem crashed_watcher_is_restarted:
  "(target \<noteq> Running \<and> d \<le> supervision_interval \<longrightarrow>
      fs_thread (monitor_turn now (Some (d, target)) orc)
        = start_fs_thread (vault_path orc) (drop_path orc)
      \<and> alive (fs_thread (monitor_turn now (Some (d, target)) orc))
      \<and> args (fs_thread (monitor_turn now (Some (d, target)) orc)) = (vault_path orc, drop_path orc, 10)
      \<and> logs (disk (monitor_turn now (Some (d, target)) orc)) (strftime now ''%Y-%m-%d'')
          = logs (disk orc) (strftime now ''%Y-%m-%d'')
            @ [Entry \<lparr>timestamp = isoformat now, action_type = ''watcher_restart'',
                      actor = ''Orchestrator'', details = ''FileSystemWatcher restarted'',
                      result = ''warning''\<rparr>]
      \<and> clock (monitor_turn now (Some (d, target)) orc) = clock orc + 30
      \<and> clock (monitor_turn now (Some (d, target)) orc) - (clock orc + d) \<le> 30)
   \<and> fs_thread (monitor_loop turns (main_start now0 vp dp v)) = start_fs_thread vp dp
   \<and> args (start_fs_thread vp dp) = (vp, dp, 10)"
proof (intro conjI impI)
  assume a: "target \<noteq> Running \<and> d \<le> supervision_interval"
  then have dead: "\<not> alive (fs_thread (WatcherThread_run target orc))"
    by (auto simp: WatcherThread_run_def split: outcome.splits exn.splits)
  have same: "vault_path (WatcherThread_run target orc) = vault_path orc"
    "drop_path (WatcherThread_run target orc) = drop_path orc"
    "disk (WatcherThread_run target orc) = disk orc"
    "clock (WatcherThread_run target orc) = clock orc"
    by (auto simp: WatcherThread_run_def split: outcome.splits exn.splits)
  from dead same show "fs_thread (monitor_turn now (Some (d, target)) orc)
        = start_fs_thread (vault_path orc) (drop_path orc)"
    by (simp add: monitor_turn_def health_check_def Let_def)
  then show "alive (fs_thread (monitor_turn now (Some (d, target)) orc))"
    and "args (fs_thread (monitor_turn now (Some (d, target)) orc)) = (vault_path orc, drop_path orc, 10)"
    by (simp_all add: start_fs_thread_def)
  from dead same show "logs (disk (monitor_turn now (Some (d, target)) orc)) (strftime now ''%Y-%m-%d'')
          = logs (disk orc) (strftime now ''%Y-%m-%d'')
            @ [Entry \<lparr>timestamp = isoformat now, action_type = ''watcher_restart'',
                      actor = ''Orchestrator'', details = ''FileSystemWatcher restarted'',
                      result = ''warning''\<rparr>]"
    by (simp add: monitor_turn_def health_check_def Let_def orch_log_action_def append_log_def)
  from dead same show c: "clock (monitor_turn now (Some (d, target)) orc) = clock orc + 30"
    by (simp add: monitor_turn_def health_check_def Let_def supervision_interval_def)
  from c show "clock (monitor_turn now (Some (d, target)) orc) - (clock orc + d) \<le> 30"
    by simp
next
  show "fs_thread (monitor_loop turns (main_start now0 vp dp v)) = start_fs_thread vp dp"
    using monitor_loop_keeps_thread [of "main_start now0 vp dp v" turns]
    by (simp add: main_start_fields)
  show "args (start_fs_thread vp dp) = (vp, dp, 10)"
    by (simp add: start_fs_thread_def)
qed

theorem crashed_watcher_is_restarted_witness:
  "Raised (Exception ''FileNotFoundError'') \<noteq> Running \<and> (12::nat) \<le> supervision_interval
   \<and> alive (fs_thread (monitor_turn ex_now (Some (12, Raised (Exception ''FileNotFoundError''))) ex_orchestrator))
   \<and> args (fs_thread (monitor_turn ex_now (Some (12, Raised (Exception ''FileNotFoundError''))) ex_orchestrator))
        = (''/vault'', ''/vault/Drop_Folder'', 10)
   \<and> clock (monitor_turn ex_now (Some (12, Raised (Exception ''FileNotFoundError''))) ex_orchestrator)
        - (clock ex_orchestrator + 12) \<le> 30"
  using crashed_watcher_is_restarted [of "Raised (Exception ''FileNotFoundError'')" 12 ex_now ex_orchestrator
          "[]" ex_now "''/vault''" "''/vault/Drop_Folder''" ex_vault]
  by (simp add: supervision_interval_def ex_orchestrator_def main_start_fields start_fs_thread_def)







text \<open>
  Claim C1 at the input where the code departs from it. The record is approved and has
  a body, Playwright is installed, and launching the browser raises (the calls before the
  \<^verbatim>\<open>try\<close> of \<^verbatim>\<open>_post_to_linkedin\<close>). The exception leaves \<^verbatim>\<open>create_action_file\<close>: the record
  stays in \<^verbatim>\<open>Approved\<close>, nothing reaches \<^verbatim>\<open>Done\<close>, the next detect returns the record again,
  and two turns of the run loop launch the browser twice.
\<close>

theorem launch_failure_leaves_record_approved:
  "fst (LinkedInPoster_create_action_file ex_now ex_browser_no_chromium ''LINKEDIN_a.md'' ex_poster)
     = Inl (Exception ''Executable does not exist'')
   \<and> dirs (store (snd (LinkedInPoster_create_action_file ex_now ex_browser_no_chromium ''LINKEDIN_a.md'' ex_poster)))
        ''Approved'' = Some [(''LINKEDIN_a.md'', ex_post)]
   \<and> dirs (store (snd (LinkedInPoster_create_action_file ex_now ex_browser_no_chromium ''LINKEDIN_a.md'' ex_poster)))
        ''Done'' = Some []
   \<and> LinkedInPoster_check_for_updates
        (snd (LinkedInPoster_create_action_file ex_now ex_browser_no_chromium ''LINKEDIN_a.md'' ex_poster))
        = [''LINKEDIN_a.md'']
   \<and> fst (LinkedInPoster_run ex_now [ex_now, ex_now] ex_browser_no_chromium ex_poster) = Running
   \<and> dirs (store (snd (LinkedInPoster_run ex_now [ex_now, ex_now] ex_browser_no_chromium ex_poster)))
        ''Approved'' = Some [(''LINKEDIN_a.md'', ex_post)]
   \<and> length (filter (\<lambda>r. r = (INFO, ''Launching browser for LinkedIn post: LINKEDIN_a''))
        (logger (snd (LinkedInPoster_run ex_now [ex_now, ex_now] ex_browser_no_chromium ex_poster)))) = 2"
  by code_simp

end
